theory Spec2Isabelle
  imports Main "HOL-Library.Word" "HOL-Library.AList"
begin

section \<open>The long running example service: timed jobs\<close>

text \<open>
  A shallow embedding of \<^verbatim>\<open>src/src/long_running_service.c\<close>. Every C function
  of the file that the properties below talk about is a HOL function of the same name.
  What the C code obtains from its environment is an explicit argument of the model:
  \<^item> the value \<^verbatim>\<open>time\<close> returns is an argument \<open>now\<close> (or, in a loop, a function
    from the position of the job to the reading taken for it);
  \<^item> the outcome of \<^verbatim>\<open>AllocMemory\<close> is an option: \<open>None\<close> is the null pointer,
    \<open>Some m\<close> a fresh block whose content \<open>m\<close> is arbitrary;
  \<^item> the success of a call into the host framework (adding to a job set, adding to
    the jobs manager, building a JSON value) is a boolean argument;
  \<^item> messages handed to \<^verbatim>\<open>PrintErrors\<close> and the calls that release memory are
    collected in a list of events that the function returns.
\<close>

subsection \<open>Data\<close>

text \<open>
  A value of \<^verbatim>\<open>time_t\<close> is an \<open>int\<close>; the type is a signed integer of
  \<open>TIME_T_BITS\<close> bits, 64 as on the platforms where \<^verbatim>\<open>time_t\<close> is \<^verbatim>\<open>long\<close> (the
  source hands the address of a \<^verbatim>\<open>time_t\<close> to \<^verbatim>\<open>GetJSONLong\<close>). The only
  arithmetic the source does on it is the sum \<^verbatim>\<open>ti_start + ti_duration\<close>, which wraps
  around when it leaves the range of the type: \<open>time_t_add\<close>. The statements below
  name the width only through \<open>TIME_T_MIN\<close> and \<open>TIME_T_MAX\<close>.
\<close>

type_synonym time_t = int

definition TIME_T_BITS :: nat where
  "TIME_T_BITS = 64"

definition TIME_T_MAX :: int where
  "TIME_T_MAX = 2 ^ (TIME_T_BITS - 1) - 1"

definition TIME_T_MIN :: int where
  "TIME_T_MIN = - (2 ^ (TIME_T_BITS - 1))"

definition time_t_add :: "time_t \<Rightarrow> time_t \<Rightarrow> time_t" where
  "time_t_add a b = signed_take_bit (TIME_T_BITS - 1) (a + b)"

text \<open>
  The identifier of a job (\<^verbatim>\<open>uuid_t\<close>) is modelled by its text form, the one
  \<^verbatim>\<open>ConvertUUIDToString\<close> prints.
\<close>

type_synonym uuid_t = string

text \<open>
  Modelled from the spec: the enumeration \<^verbatim>\<open>OperationStatus\<close> is declared by the
  host framework, not by this repository. The constructors are the values that the source
  file and the specification name.
\<close>

datatype OperationStatus = OS_ERROR | OS_IDLE | OS_PENDING | OS_STARTED | OS_SUCCEEDED

datatype json_t =
    JSON_INTEGER int
  | JSON_STRING string
  | JSON_BOOLEAN bool
  | JSON_NULL
  | JSON_ARRAY "json_t list"
  | JSON_OBJECT "(string \<times> json_t) list"

record TimeInterval =
  ti_start :: time_t
  ti_end :: time_t
  ti_duration :: time_t

text \<open>
  Modelled from the spec: the generic \<^verbatim>\<open>ServiceJob\<close> of the host framework, with
  the fields the specification lists (identifier, name, description, type tag, status,
  result payload).
\<close>

record ServiceJob =
  sj_id :: uuid_t
  sj_name :: string
  sj_description :: string
  sj_type :: string
  sj_status :: OperationStatus
  sj_result :: json_t

record TimedServiceJob =
  tsj_job :: ServiceJob
  tsj_interval_p :: TimeInterval
  tsj_added_flag :: bool
  tsj_process_id :: int

record LongRunningServiceData =
  lsd_default_number_of_jobs :: nat

record Service =
  se_data_p :: LongRunningServiceData
  se_jobs_p :: "TimedServiceJob list option"

text \<open>
  The events a function leaves behind: a message with its arguments, or the release of
  a block of memory (with the content the block had).
\<close>

datatype log_arg = Arg_string string | Arg_int int

datatype event =
    PrintErrors string "log_arg list"
  | PrintJSONToErrors json_t string "log_arg list"
  | PrintJSONToLog json_t string
  | FreeMemory_TimeInterval TimeInterval
  | FreeBaseServiceJob ServiceJob
  | FreeServiceJobSet "TimedServiceJob list"
  | FreeLongRunningServiceData LongRunningServiceData

text \<open>
  Modelled from the spec: the Job Registry (\<^verbatim>\<open>JobsManager\<close>) of the host framework,
  a store from job identifier to job.
\<close>

type_synonym JobsManager = "uuid_t \<rightharpoonup> TimedServiceJob"

definition LRS_SERVICE_JOB_TYPE_S :: string where
  "LRS_SERVICE_JOB_TYPE_S = ''long running service job''"

definition LRS_START_S :: string where
  "LRS_START_S = ''start''"

definition LRS_END_S :: string where
  "LRS_END_S = ''end''"

definition LRS_ADDED_FLAG_S :: string where
  "LRS_ADDED_FLAG_S = ''added_to_job_manager''"

subsection \<open>The status of a timed job\<close>

text \<open>
  Modelled from the spec: \<^verbatim>\<open>SetServiceJobStatus\<close> and \<^verbatim>\<open>GetServiceJobStatus\<close> of
  the host framework write and read the status field of the base job.
\<close>

definition SetServiceJobStatus :: "ServiceJob \<Rightarrow> OperationStatus \<Rightarrow> ServiceJob" where
  "SetServiceJobStatus job_p status = job_p\<lparr>sj_status := status\<rparr>"

definition GetServiceJobStatus :: "ServiceJob \<Rightarrow> OperationStatus" where
  "GetServiceJobStatus job_p = sj_status job_p"

text \<open>
  \<^verbatim>\<open>StartTimedServiceJob\<close>: \<open>now\<close> is what \<^verbatim>\<open>time (& (ti_p -> ti_start))\<close> stores.
\<close>

definition StartTimedServiceJob :: "time_t \<Rightarrow> TimedServiceJob \<Rightarrow> TimedServiceJob" where
  "StartTimedServiceJob now job_p =
     (let ti_p = tsj_interval_p job_p;
          ti_p = ti_p\<lparr>ti_start := now\<rparr>;
          ti_p = ti_p\<lparr>ti_end := time_t_add (ti_start ti_p) (ti_duration ti_p)\<rparr>
      in job_p\<lparr>tsj_interval_p := ti_p,
                tsj_job := SetServiceJobStatus (tsj_job job_p) OS_STARTED\<rparr>)"

text \<open>
  \<^verbatim>\<open>GetTimedServiceJobStatus\<close>: \<open>now\<close> is what \<^verbatim>\<open>time (NULL)\<close> returns; the code
  asks for it only when start and end differ. The function returns the status and the
  job with the status written to it.
\<close>

definition GetTimedServiceJobStatus ::
  "time_t \<Rightarrow> TimedServiceJob \<Rightarrow> OperationStatus \<times> TimedServiceJob" where
  "GetTimedServiceJobStatus now job_p =
     (let ti_p = tsj_interval_p job_p;
          status =
            (if ti_start ti_p \<noteq> ti_end ti_p then
               (let t = now in
                  if t \<ge> ti_start ti_p then
                    (if t \<le> ti_end ti_p then OS_STARTED else OS_SUCCEEDED)
                  else OS_ERROR)
             else OS_IDLE)
      in (status, job_p\<lparr>tsj_job := SetServiceJobStatus (tsj_job job_p) status\<rparr>))"

subsection \<open>Allocation\<close>

text \<open>
  Modelled from the spec: \<^verbatim>\<open>InitServiceJob\<close> of the host framework fills the base
  job: a fresh identifier \<open>id\<close>, the name, the description, the type tag, status idle and
  no result.
\<close>

definition InitServiceJob :: "uuid_t \<Rightarrow> string \<Rightarrow> string \<Rightarrow> string \<Rightarrow> ServiceJob" where
  "InitServiceJob fresh_id job_name_s job_description_s type_s =
     \<lparr>sj_id = fresh_id, sj_name = job_name_s, sj_description = job_description_s,
      sj_type = type_s, sj_status = OS_IDLE, sj_result = JSON_NULL\<rparr>"

text \<open>
  \<^verbatim>\<open>FreeTimedServiceJob\<close>: the interval pointer may be null (\<open>None\<close>).
\<close>

definition FreeTimedServiceJob :: "TimeInterval option \<Rightarrow> ServiceJob \<Rightarrow> event list" where
  "FreeTimedServiceJob interval_p job_p =
     (case interval_p of Some ti \<Rightarrow> [FreeMemory_TimeInterval ti] | None \<Rightarrow> [])
     @ [FreeBaseServiceJob job_p]"

text \<open>
  \<^verbatim>\<open>AllocateTimedServiceJob\<close>: \<open>interval_mem\<close> and \<open>job_mem\<close> are the outcomes of
  the two calls of \<^verbatim>\<open>AllocMemory\<close>, \<open>fresh_id\<close> the identifier that
  \<^verbatim>\<open>InitServiceJob\<close> generates.
\<close>

definition AllocateTimedServiceJob ::
  "TimeInterval option \<Rightarrow> TimedServiceJob option \<Rightarrow> uuid_t \<Rightarrow> string \<Rightarrow> string \<Rightarrow> time_t
     \<Rightarrow> TimedServiceJob option \<times> event list" where
  "AllocateTimedServiceJob interval_mem job_mem fresh_id job_name_s job_description_s duration =
     (case interval_mem of
        Some interval_p \<Rightarrow>
          (case job_mem of
             Some job_p \<Rightarrow>
               (let interval_p = interval_p\<lparr>ti_start := 0\<rparr>;
                    interval_p = interval_p\<lparr>ti_end := 0\<rparr>;
                    interval_p = interval_p\<lparr>ti_duration := duration\<rparr>;
                    job_p = job_p\<lparr>tsj_interval_p := interval_p\<rparr>;
                    job_p = job_p\<lparr>tsj_added_flag := False\<rparr>;
                    job_p = job_p\<lparr>tsj_job :=
                      InitServiceJob fresh_id job_name_s job_description_s LRS_SERVICE_JOB_TYPE_S\<rparr>
                in (Some job_p, []))
           | None \<Rightarrow>
               (None, [FreeMemory_TimeInterval interval_p,
                       PrintErrors ''Failed to allocate TimedServiceJob'' []]))
      | None \<Rightarrow> (None, [PrintErrors ''Failed to allocate TimeInterval'' []]))"

subsection \<open>JSON documents\<close>

text \<open>
  The JSON library and the helpers of the host framework that read a member of an
  object. \<open>ok\<close> is false when the library fails (out of memory).
\<close>

fun json_object_get :: "json_t \<Rightarrow> string \<Rightarrow> json_t option" where
  "json_object_get (JSON_OBJECT kvs) key = map_of kvs key"
| "json_object_get _ key = None"

fun json_object_set_new :: "bool \<Rightarrow> json_t \<Rightarrow> string \<Rightarrow> json_t \<Rightarrow> json_t option" where
  "json_object_set_new ok (JSON_OBJECT kvs) key v =
     (if ok then Some (JSON_OBJECT (AList.update key v kvs)) else None)"
| "json_object_set_new ok _ key v = None"

definition GetJSONLong :: "json_t \<Rightarrow> string \<Rightarrow> int option" where
  "GetJSONLong json_p key =
     (case json_object_get json_p key of Some (JSON_INTEGER n) \<Rightarrow> Some n | _ \<Rightarrow> None)"

definition GetJSONBoolean :: "json_t \<Rightarrow> string \<Rightarrow> bool option" where
  "GetJSONBoolean json_p key =
     (case json_object_get json_p key of Some (JSON_BOOLEAN b) \<Rightarrow> Some b | _ \<Rightarrow> None)"

definition GetJSONString :: "json_t \<Rightarrow> string \<Rightarrow> string option" where
  "GetJSONString json_p key =
     (case json_object_get json_p key of Some (JSON_STRING s) \<Rightarrow> Some s | _ \<Rightarrow> None)"

text \<open>
  Modelled from the spec: the document of the base job, written by
  \<^verbatim>\<open>GetServiceJobAsJSON\<close> and read by \<^verbatim>\<open>InitServiceJobFromJSON\<close> of the host
  framework. It holds the members \<open>id\<close>, \<open>name\<close>, \<open>description\<close>, \<open>type\<close>, \<open>status\<close> and
  \<open>result\<close>. The status is stored as a number; the model needs of the numbers only
  that they differ.
\<close>

fun OperationStatus_code :: "OperationStatus \<Rightarrow> int" where
  "OperationStatus_code OS_ERROR = -1"
| "OperationStatus_code OS_IDLE = 0"
| "OperationStatus_code OS_PENDING = 1"
| "OperationStatus_code OS_STARTED = 2"
| "OperationStatus_code OS_SUCCEEDED = 5"

definition OperationStatus_of_code :: "int \<Rightarrow> OperationStatus option" where
  "OperationStatus_of_code c =
     (if c = -1 then Some OS_ERROR
      else if c = 0 then Some OS_IDLE
      else if c = 1 then Some OS_PENDING
      else if c = 2 then Some OS_STARTED
      else if c = 5 then Some OS_SUCCEEDED
      else None)"

definition GetServiceJobAsJSON :: "bool \<Rightarrow> ServiceJob \<Rightarrow> json_t option" where
  "GetServiceJobAsJSON ok job_p =
     (if ok then
        Some (JSON_OBJECT
          [(''id'', JSON_STRING (sj_id job_p)),
           (''name'', JSON_STRING (sj_name job_p)),
           (''description'', JSON_STRING (sj_description job_p)),
           (''type'', JSON_STRING (sj_type job_p)),
           (''status'', JSON_INTEGER (OperationStatus_code (sj_status job_p))),
           (''result'', sj_result job_p)])
      else None)"

definition InitServiceJobFromJSON :: "json_t \<Rightarrow> ServiceJob option" where
  "InitServiceJobFromJSON json_p =
     (case GetJSONString json_p ''id'' of None \<Rightarrow> None | Some i \<Rightarrow>
     (case GetJSONString json_p ''name'' of None \<Rightarrow> None | Some n \<Rightarrow>
     (case GetJSONString json_p ''description'' of None \<Rightarrow> None | Some d \<Rightarrow>
     (case GetJSONString json_p ''type'' of None \<Rightarrow> None | Some t \<Rightarrow>
     (case GetJSONLong json_p ''status'' of None \<Rightarrow> None | Some c \<Rightarrow>
     (case OperationStatus_of_code c of None \<Rightarrow> None | Some s \<Rightarrow>
     (case json_object_get json_p ''result'' of None \<Rightarrow> None | Some r \<Rightarrow>
        Some \<lparr>sj_id = i, sj_name = n, sj_description = d, sj_type = t, sj_status = s,
              sj_result = r\<rparr>)))))))"

text \<open>
  Modelled from the spec: the Job Registry interface, \<open>register (id, job)\<close>,
  \<open>lookup (id)\<close> and \<open>remove (id, alsoFreeFlag)\<close>. \<open>ok\<close> is whether the registry
  accepts the job.
\<close>

definition AddServiceJobToJobsManager ::
  "bool \<Rightarrow> JobsManager \<Rightarrow> uuid_t \<Rightarrow> TimedServiceJob \<Rightarrow> bool \<times> JobsManager" where
  "AddServiceJobToJobsManager ok jobs_manager_p job_id job_p =
     (if ok then (True, jobs_manager_p(job_id \<mapsto> job_p)) else (False, jobs_manager_p))"

definition GetServiceJobFromJobsManager :: "JobsManager \<Rightarrow> uuid_t \<Rightarrow> TimedServiceJob option" where
  "GetServiceJobFromJobsManager jobs_manager_p job_id = jobs_manager_p job_id"

definition RemoveServiceJobFromJobsManager :: "JobsManager \<Rightarrow> uuid_t \<Rightarrow> bool \<Rightarrow> JobsManager" where
  "RemoveServiceJobFromJobsManager jobs_manager_p job_id free_flag = jobs_manager_p(job_id := None)"

subsection \<open>Serialising and rehydrating a timed job\<close>

text \<open>
  \<^verbatim>\<open>GetTimedServiceJobAsJSON\<close>: the three flags are the success of
  \<^verbatim>\<open>GetServiceJobAsJSON\<close> and of the two calls of \<^verbatim>\<open>json_object_set_new\<close>.
\<close>

definition GetTimedServiceJobAsJSON ::
  "bool \<Rightarrow> bool \<Rightarrow> bool \<Rightarrow> TimedServiceJob \<Rightarrow> json_t option \<times> event list" where
  "GetTimedServiceJobAsJSON base_ok start_ok end_ok job_p =
     (case GetServiceJobAsJSON base_ok (tsj_job job_p) of
        Some json_p \<Rightarrow>
          (case json_object_set_new start_ok json_p LRS_START_S
                  (JSON_INTEGER (ti_start (tsj_interval_p job_p))) of
             Some json_p \<Rightarrow>
               (case json_object_set_new end_ok json_p LRS_END_S
                       (JSON_INTEGER (ti_end (tsj_interval_p job_p))) of
                  Some json_p \<Rightarrow> (Some json_p, [])
                | None \<Rightarrow>
                    (None, [PrintJSONToErrors json_p ''Failed to add %s SIZET_FMT to json''
                              [Arg_string LRS_END_S, Arg_int (ti_end (tsj_interval_p job_p))]]))
           | None \<Rightarrow>
               (None, [PrintJSONToErrors json_p ''Failed to add %s SIZET_FMT to json''
                         [Arg_string LRS_END_S, Arg_int (ti_end (tsj_interval_p job_p))]]))
      | None \<Rightarrow> (None, [PrintErrors ''Failed to create JSON for TimedServiceJob'' []]))"

text \<open>
  \<^verbatim>\<open>SerialiseTimedServiceJob\<close>: \<open>json_dumps\<close> stands for the call
  \<^verbatim>\<open>json_dumps (job_json_p, JSON_INDENT (2))\<close> of the JSON library, the text of the
  document or a failure. The result is the buffer, which is the text with its
  terminating zero byte, and the length that is stored through \<^verbatim>\<open>value_length_p\<close>, an
  \<^verbatim>\<open>unsigned int\<close>.
\<close>

definition SerialiseTimedServiceJob ::
  "bool \<Rightarrow> bool \<Rightarrow> bool \<Rightarrow> (json_t \<Rightarrow> string option) \<Rightarrow> TimedServiceJob
     \<Rightarrow> (string \<times> nat) option \<times> event list" where
  "SerialiseTimedServiceJob base_ok start_ok end_ok json_dumps job_p =
     (case GetTimedServiceJobAsJSON base_ok start_ok end_ok job_p of
        (Some job_json_p, evs) \<Rightarrow>
          (case json_dumps job_json_p of
             Some job_s \<Rightarrow> (Some (job_s @ [CHR 0x00], (length job_s + 1) mod 2 ^ 32), evs)
           | None \<Rightarrow>
               (None, evs @ [PrintErrors ''json_dumps failed for \"%s\"''
                               [Arg_string (sj_id (tsj_job job_p))]]))
      | (None, evs) \<Rightarrow>
          (None, evs @ [PrintErrors ''GetTimedServiceJobAsJSON failed for \"%s\"''
                          [Arg_string (sj_id (tsj_job job_p))]]))"

text \<open>
  \<^verbatim>\<open>GetTimedServiceJobFromJSON\<close>: \<open>job_mem\<close> and \<open>interval_mem\<close> are the outcomes
  of the two calls of \<^verbatim>\<open>AllocMemory\<close>, \<open>now\<close> is the reading of the clock that
  \<^verbatim>\<open>GetTimedServiceJobStatus\<close> takes. The result is the job (\<open>None\<close> for the null
  pointer), the registry afterwards and the events.
\<close>

definition GetTimedServiceJobFromJSON ::
  "TimedServiceJob option \<Rightarrow> TimeInterval option \<Rightarrow> time_t \<Rightarrow> JobsManager \<Rightarrow> json_t
     \<Rightarrow> TimedServiceJob option \<times> JobsManager \<times> event list" where
  "GetTimedServiceJobFromJSON job_mem interval_mem now jobs_manager_p json_p =
     (case job_mem of
        Some job_p \<Rightarrow>
          (case interval_mem of
             Some interval_p \<Rightarrow>
               (let job_p = job_p\<lparr>tsj_interval_p := interval_p\<rparr> in
                case InitServiceJobFromJSON json_p of
                  Some base \<Rightarrow>
                    (let job_p = job_p\<lparr>tsj_job := base\<rparr> in
                     case GetJSONLong json_p LRS_START_S of
                       Some s \<Rightarrow>
                         (let job_p = job_p\<lparr>tsj_interval_p := (tsj_interval_p job_p)\<lparr>ti_start := s\<rparr>\<rparr> in
                          case GetJSONLong json_p LRS_END_S of
                            Some e \<Rightarrow>
                              (let job_p = job_p\<lparr>tsj_interval_p := (tsj_interval_p job_p)\<lparr>ti_end := e\<rparr>\<rparr>;
                                   old_status = GetServiceJobStatus (tsj_job job_p);
                                   job_p = (case GetJSONBoolean json_p LRS_ADDED_FLAG_S of
                                              Some b \<Rightarrow> job_p\<lparr>tsj_added_flag := b\<rparr>
                                            | None \<Rightarrow> job_p\<lparr>tsj_added_flag := False\<rparr>)
                               in if old_status = OS_STARTED then
                                    (let (new_status, job_p) = GetTimedServiceJobStatus now job_p in
                                       if new_status \<noteq> old_status then
                                         (Some job_p,
                                          RemoveServiceJobFromJobsManager jobs_manager_p
                                            (sj_id (tsj_job job_p)) False,
                                          [])
                                       else (Some job_p, jobs_manager_p, []))
                                  else (Some job_p, jobs_manager_p, []))
                          | None \<Rightarrow>
                              (None, jobs_manager_p,
                               PrintErrors ''Failed to get %s from JSON'' [Arg_string LRS_END_S]
                               # FreeTimedServiceJob (Some (tsj_interval_p job_p)) (tsj_job job_p)))
                     | None \<Rightarrow>
                         (None, jobs_manager_p,
                          PrintErrors ''Failed to get %s from JSON'' [Arg_string LRS_START_S]
                          # FreeTimedServiceJob (Some (tsj_interval_p job_p)) (tsj_job job_p)))
                | None \<Rightarrow>
                    (None, jobs_manager_p,
                     PrintErrors ''Failed to init ServiceJob from JSON'' []
                     # PrintJSONToLog json_p ''Init ServiceJob failure: ''
                     # FreeTimedServiceJob (Some (tsj_interval_p job_p)) (tsj_job job_p)))
           | None \<Rightarrow>
               (None, jobs_manager_p,
                PrintErrors ''Failed to allocate TimeInterval'' []
                # FreeTimedServiceJob None (tsj_job job_p)))
      | None \<Rightarrow> (None, jobs_manager_p, [PrintErrors ''Failed to allocate TimedServiceJob'' []]))"

subsection \<open>The result query\<close>

text \<open>
  \<^verbatim>\<open>json_pack_ex\<close> with the format \<^verbatim>\<open>{s:i,s:i}\<close>: the format letter \<open>i\<close> reads a
  C \<^verbatim>\<open>int\<close>, so each of the two times is narrowed to 32 bits.
\<close>

definition json_pack_ex :: "bool \<Rightarrow> string \<Rightarrow> time_t \<Rightarrow> string \<Rightarrow> time_t \<Rightarrow> json_t option" where
  "json_pack_ex ok k1 v1 k2 v2 =
     (if ok then
        Some (JSON_OBJECT
          (AList.update k2 (JSON_INTEGER (sint (word_of_int v2 :: 32 word)))
            [(k1, JSON_INTEGER (sint (word_of_int v1 :: 32 word)))]))
      else None)"

definition json_array :: "bool \<Rightarrow> json_t option" where
  "json_array ok = (if ok then Some (JSON_ARRAY []) else None)"

fun json_array_append_new :: "bool \<Rightarrow> json_t \<Rightarrow> json_t \<Rightarrow> json_t option" where
  "json_array_append_new ok (JSON_ARRAY xs) v = (if ok then Some (JSON_ARRAY (xs @ [v])) else None)"
| "json_array_append_new ok _ v = None"

text \<open>
  \<^verbatim>\<open>GetLongRunningResultsAsJSON\<close>: \<open>GetDataResourceAsJSONByParts\<close> stands for the
  call \<^verbatim>\<open>GetDataResourceAsJSONByParts (PROTOCOL_INLINE_S, NULL, ..., result_p)\<close>
  of the host framework, which wraps its last argument into a resource (or fails).
\<close>

definition GetLongRunningResultsAsJSON ::
  "bool \<Rightarrow> (json_t \<Rightarrow> json_t option) \<Rightarrow> bool \<Rightarrow> bool \<Rightarrow> JobsManager \<Rightarrow> uuid_t
     \<Rightarrow> json_t option \<times> event list" where
  "GetLongRunningResultsAsJSON pack_ok GetDataResourceAsJSONByParts array_ok append_ok
       jobs_manager_p job_id =
     (case GetServiceJobFromJobsManager jobs_manager_p job_id of
        Some job_p \<Rightarrow>
          (case json_pack_ex pack_ok ''start'' (ti_start (tsj_interval_p job_p))
                  ''end'' (ti_end (tsj_interval_p job_p)) of
             Some result_p \<Rightarrow>
               (case GetDataResourceAsJSONByParts result_p of
                  Some resource_json_p \<Rightarrow>
                    (case json_array array_ok of
                       Some results_array_p \<Rightarrow>
                         (case json_array_append_new append_ok results_array_p result_p of
                            Some results_array_p \<Rightarrow> (Some results_array_p, [])
                          | None \<Rightarrow> (None, []))
                     | None \<Rightarrow> (None, []))
                | None \<Rightarrow> (None, []))
           | None \<Rightarrow> (None, []))
      | None \<Rightarrow>
          (None, [PrintErrors ''Failed to get job data for \"%s\"'' [Arg_string job_id]]))"

subsection \<open>Building the batch of jobs\<close>

text \<open>
  Decimal printing, for the formats of \<^verbatim>\<open>sprintf\<close>.
\<close>

fun dec_digits :: "nat \<Rightarrow> string" where
  "dec_digits n =
     (if n < 10 then [''0123456789'' ! n]
      else dec_digits (n div 10) @ [''0123456789'' ! (n mod 10)])"

declare dec_digits.simps [simp del]

definition format_int :: "int \<Rightarrow> string" where
  "format_int i = (if i < 0 then CHR ''-'' # dec_digits (nat (- i)) else dec_digits (nat i))"

text \<open>
  What one turn of the loop of \<^verbatim>\<open>GetServiceJobSet\<close> gets from its environment: the
  value of \<^verbatim>\<open>rand ()\<close>, the outcomes of the two calls of \<^verbatim>\<open>AllocMemory\<close>, the
  identifier that \<^verbatim>\<open>InitServiceJob\<close> generates, and whether
  \<^verbatim>\<open>AddServiceJobToService\<close> succeeds.
\<close>

record job_env =
  e_rand :: nat
  e_interval_mem :: "TimeInterval option"
  e_job_mem :: "TimedServiceJob option"
  e_id :: uuid_t
  e_added :: bool

text \<open>
  The duration of a job, \<^verbatim>\<open>const int duration = min_duration + (rand () % 60)\<close>: a sum
  of 32-bit integers, which wraps around.
\<close>

definition job_duration :: "32 word \<Rightarrow> nat \<Rightarrow> 32 word" where
  "job_duration min_duration r = min_duration + word_of_nat (r mod 60)"

text \<open>
  \<^verbatim>\<open>sprintf\<close> of the job name with the format \<^verbatim>\<open>INT32_FMT\<close> prints the unsigned counter as a signed
  32-bit number; the description is printed with \<^verbatim>\<open>SIZET_FMT\<close> from \<^verbatim>\<open>(size_t) duration\<close>,
  the duration as an unsigned 64-bit number.
\<close>

definition job_name :: "nat \<Rightarrow> string" where
  "job_name i = ''job '' @ format_int (sint (word_of_nat i :: 32 word))"

definition job_description :: "32 word \<Rightarrow> string" where
  "job_description duration =
     ''duration '' @ dec_digits (unat (word_of_int (sint duration) :: 64 word))"

text \<open>
  The loop of \<^verbatim>\<open>GetServiceJobSet\<close>. The counter \<open>i\<close> and \<open>num_jobs\<close> are
  \<^verbatim>\<open>uint32\<close> values; the counter stays below \<open>num_jobs\<close> and cannot wrap, so both are
  natural numbers here. Modelled from the spec: \<^verbatim>\<open>AddServiceJobToService\<close> of the host
  framework registers the job into the job set that is being built, or fails. The loop
  returns \<^verbatim>\<open>success_flag\<close>, the job set and the events.
\<close>

function GetServiceJobSet_loop ::
  "(nat \<Rightarrow> job_env) \<Rightarrow> nat \<Rightarrow> 32 word \<Rightarrow> nat \<Rightarrow> TimedServiceJob list \<Rightarrow> event list
     \<Rightarrow> bool \<times> TimedServiceJob list \<times> event list" where
  "GetServiceJobSet_loop env num_jobs min_duration i jobs_p evs =
     (if i < num_jobs then
        (let duration = job_duration min_duration (e_rand (env i));
             job_name_s = job_name i;
             job_description_s = job_description duration;
             (job_opt, evs1) =
               AllocateTimedServiceJob (e_interval_mem (env i)) (e_job_mem (env i)) (e_id (env i))
                 job_name_s job_description_s (sint duration)
         in case job_opt of
              Some job_p \<Rightarrow>
                if e_added (env i) then
                  GetServiceJobSet_loop env num_jobs min_duration (Suc i) (jobs_p @ [job_p])
                    (evs @ evs1)
                else
                  (False, jobs_p,
                   evs @ evs1
                   @ [PrintErrors ''Failed to add TimedServiceJob to ServiceJobSet'' []]
                   @ FreeTimedServiceJob (Some (tsj_interval_p job_p)) (tsj_job job_p))
            | None \<Rightarrow>
                (False, jobs_p,
                 evs @ evs1 @ [PrintErrors ''Failed to allocate TimedServiceJob'' []]))
      else (True, jobs_p, evs))"
  by pat_completeness auto
termination
  by (relation "measure (\<lambda>(env, num_jobs, min_duration, i, jobs_p, evs). num_jobs - i)") auto

declare GetServiceJobSet_loop.simps [simp del]

text \<open>
  For the properties of the loop: a turn goes well when both allocations and the
  registration into the job set succeed, and \<open>batch_job env min_duration i\<close> is the job
  that turn \<open>i\<close> then allocates.
\<close>

definition turn_ok :: "(nat \<Rightarrow> job_env) \<Rightarrow> nat \<Rightarrow> bool" where
  "turn_ok env i =
     (e_interval_mem (env i) \<noteq> None \<and> e_job_mem (env i) \<noteq> None \<and> e_added (env i))"

definition batch_job :: "(nat \<Rightarrow> job_env) \<Rightarrow> 32 word \<Rightarrow> nat \<Rightarrow> TimedServiceJob" where
  "batch_job env min_duration i =
     (the (e_job_mem (env i)))
       \<lparr>tsj_interval_p := \<lparr>ti_start = 0, ti_end = 0,
           ti_duration = sint (job_duration min_duration (e_rand (env i)))\<rparr>,
        tsj_added_flag := False,
        tsj_job := InitServiceJob (e_id (env i)) (job_name i)
           (job_description (job_duration min_duration (e_rand (env i)))) LRS_SERVICE_JOB_TYPE_S\<rparr>"

text \<open>
  \<^verbatim>\<open>GetServiceJobSet\<close>: \<open>set_ok\<close> is whether \<^verbatim>\<open>AllocateServiceJobSet\<close> succeeds.
\<close>

definition GetServiceJobSet ::
  "bool \<Rightarrow> (nat \<Rightarrow> job_env) \<Rightarrow> nat \<Rightarrow> 32 word \<Rightarrow> TimedServiceJob list option \<times> event list" where
  "GetServiceJobSet set_ok env num_jobs min_duration =
     (if set_ok then
        (let (success_flag, jobs_p, evs) = GetServiceJobSet_loop env num_jobs min_duration 0 [] []
         in if \<not> success_flag then (None, evs @ [FreeServiceJobSet jobs_p])
            else (Some jobs_p, evs))
      else (None, []))"

subsection \<open>Running the service\<close>

text \<open>
  Modelled from the spec: the parameters of a run request, read through
  \<^verbatim>\<open>GetCurrentUnsignedIntParameterValueFromParameterSet\<close> and
  \<^verbatim>\<open>GetCurrentSignedIntParameterValueFromParameterSet\<close> of the host framework. Each
  returns whether the parameter exists and a pointer to its current value, which may be
  null.
\<close>

datatype Parameter = UnsignedIntParameter "nat option" | SignedIntParameter "32 word option"

type_synonym ParameterSet = "(string \<times> Parameter) list"

definition LRS_MIN_DURATION :: string where
  "LRS_MIN_DURATION = ''Minimum duration of each job''"

definition LRS_NUMBER_OF_JOBS :: string where
  "LRS_NUMBER_OF_JOBS = ''Number of Jobs''"

definition GetCurrentUnsignedIntParameterValueFromParameterSet ::
  "ParameterSet \<Rightarrow> string \<Rightarrow> bool \<times> nat option" where
  "GetCurrentUnsignedIntParameterValueFromParameterSet param_set_p name_s =
     (case map_of param_set_p name_s of
        Some (UnsignedIntParameter v) \<Rightarrow> (True, v)
      | _ \<Rightarrow> (False, None))"

definition GetCurrentSignedIntParameterValueFromParameterSet ::
  "ParameterSet \<Rightarrow> string \<Rightarrow> bool \<times> 32 word option" where
  "GetCurrentSignedIntParameterValueFromParameterSet param_set_p name_s =
     (case map_of param_set_p name_s of
        Some (SignedIntParameter v) \<Rightarrow> (True, v)
      | _ \<Rightarrow> (False, None))"

text \<open>
  What one turn of the loop of \<^verbatim>\<open>RunLongRunningService\<close> gets from its environment:
  the clock reading of \<^verbatim>\<open>StartTimedServiceJob\<close>, the clock reading of
  \<^verbatim>\<open>GetTimedServiceJobStatus\<close>, and whether the jobs manager accepts the job.
\<close>

record run_env =
  r_start_time :: time_t
  r_status_time :: time_t
  r_added :: bool

text \<open>
  One turn of the loop of \<^verbatim>\<open>RunLongRunningService\<close>, for the job \<open>job_p\<close>: it
  returns the job, the registry and the events.
\<close>

definition RunLongRunningService_turn ::
  "run_env \<Rightarrow> TimedServiceJob \<Rightarrow> JobsManager \<Rightarrow> TimedServiceJob \<times> JobsManager \<times> event list" where
  "RunLongRunningService_turn e job_p jobs_manager_p =
     (let job_p = StartTimedServiceJob (r_start_time e) job_p;
          (status, job_p) = GetTimedServiceJobStatus (r_status_time e) job_p;
          job_p = job_p\<lparr>tsj_job := SetServiceJobStatus (tsj_job job_p) status\<rparr>;
          job_p = job_p\<lparr>tsj_added_flag := True\<rparr>;
          (added, jobs_manager_p) =
            AddServiceJobToJobsManager (r_added e) jobs_manager_p (sj_id (tsj_job job_p)) job_p
      in if \<not> added then
           (job_p\<lparr>tsj_added_flag := False\<rparr>, jobs_manager_p,
            [PrintErrors ''Failed to add job \"%s\" to JobsManager''
               [Arg_string (sj_id (tsj_job job_p))]])
         else (job_p, jobs_manager_p, []))"

text \<open>
  The loop over the job set, in the order of the iterator; \<open>k\<close> is the position of the
  next job.
\<close>

fun RunLongRunningService_loop ::
  "(nat \<Rightarrow> run_env) \<Rightarrow> nat \<Rightarrow> TimedServiceJob list \<Rightarrow> JobsManager
     \<Rightarrow> TimedServiceJob list \<times> JobsManager \<times> event list" where
  "RunLongRunningService_loop env k [] jobs_manager_p = ([], jobs_manager_p, [])"
| "RunLongRunningService_loop env k (job_p # rest) jobs_manager_p =
     (let (job_p, jobs_manager_p, evs) = RunLongRunningService_turn (env k) job_p jobs_manager_p;
          (rest, jobs_manager_p, evs') = RunLongRunningService_loop env (Suc k) rest jobs_manager_p
      in (job_p # rest, jobs_manager_p, evs @ evs'))"

text \<open>
  \<^verbatim>\<open>RunLongRunningService\<close> returns \<^verbatim>\<open>service_p -> se_jobs_p\<close>; the model returns
  the service, the registry and the events.
\<close>

definition RunLongRunningService ::
  "bool \<Rightarrow> (nat \<Rightarrow> job_env) \<Rightarrow> (nat \<Rightarrow> run_env) \<Rightarrow> Service \<Rightarrow> JobsManager \<Rightarrow> ParameterSet
     \<Rightarrow> Service \<times> JobsManager \<times> event list" where
  "RunLongRunningService set_ok jenv renv service_p jobs_manager_p param_set_p =
     (case GetCurrentUnsignedIntParameterValueFromParameterSet param_set_p LRS_NUMBER_OF_JOBS of
        (True, Some num_tasks) \<Rightarrow>
          if num_tasks > 0 then
            (let min_duration_p =
                   snd (GetCurrentSignedIntParameterValueFromParameterSet param_set_p LRS_MIN_DURATION);
                 (jobs_opt, evs) =
                   GetServiceJobSet set_ok jenv num_tasks
                     (case min_duration_p of Some d \<Rightarrow> d | None \<Rightarrow> 1)
             in case jobs_opt of
                  Some jobs_p \<Rightarrow>
                    (let (jobs_p, jobs_manager_p, evs') =
                           RunLongRunningService_loop renv 0 jobs_p jobs_manager_p
                     in (service_p\<lparr>se_jobs_p := Some jobs_p\<rparr>, jobs_manager_p, evs @ evs'))
                | None \<Rightarrow> (service_p\<lparr>se_jobs_p := None\<rparr>, jobs_manager_p, evs))
          else (service_p, jobs_manager_p, [])
      | _ \<Rightarrow> (service_p, jobs_manager_p, []))"

subsection \<open>Closing the service\<close>

text \<open>
  The loop of \<^verbatim>\<open>CloseLongRunningService\<close>: \<open>clock k\<close> is the reading that
  \<^verbatim>\<open>GetTimedServiceJobStatus\<close> takes for the job at position \<open>k\<close>. The loop returns
  \<^verbatim>\<open>close_flag\<close> and the jobs, with the status written to those it has looked at.
\<close>

fun CloseLongRunningService_loop ::
  "(nat \<Rightarrow> time_t) \<Rightarrow> nat \<Rightarrow> TimedServiceJob list \<Rightarrow> bool \<times> TimedServiceJob list" where
  "CloseLongRunningService_loop clock k [] = (True, [])"
| "CloseLongRunningService_loop clock k (job_p # rest) =
     (let (status, job_p) = GetTimedServiceJobStatus (clock k) job_p in
        if status = OS_PENDING \<or> status = OS_STARTED then (False, job_p # rest)
        else (let (close_flag, rest) = CloseLongRunningService_loop clock (Suc k) rest
              in (close_flag, job_p # rest)))"

definition CloseLongRunningService ::
  "(nat \<Rightarrow> time_t) \<Rightarrow> Service \<Rightarrow> bool \<times> Service \<times> event list" where
  "CloseLongRunningService clock service_p =
     (let data_p = se_data_p service_p;
          (close_flag, service_p) =
            (case se_jobs_p service_p of
               Some jobs_p \<Rightarrow>
                 (let (close_flag, jobs_p) = CloseLongRunningService_loop clock 0 jobs_p
                  in (close_flag, service_p\<lparr>se_jobs_p := Some jobs_p\<rparr>))
             | None \<Rightarrow> (True, service_p))
      in if close_flag then (close_flag, service_p, [FreeLongRunningServiceData data_p])
         else (close_flag, service_p, []))"

subsection \<open>Sample values\<close>

text \<open>
  The content of two fresh blocks of memory and the environment of a batch, for the
  concrete runs below.
\<close>

definition sample_interval_mem :: TimeInterval where
  "sample_interval_mem = \<lparr>ti_start = 7, ti_end = 8, ti_duration = 9\<rparr>"

definition sample_job_mem :: TimedServiceJob where
  "sample_job_mem =
     \<lparr>tsj_job = \<lparr>sj_id = ''?'', sj_name = ''?'', sj_description = ''?'', sj_type = ''?'',
                 sj_status = OS_PENDING, sj_result = JSON_NULL\<rparr>,
      tsj_interval_p = \<lparr>ti_start = 1, ti_end = 2, ti_duration = 3\<rparr>,
      tsj_added_flag = True, tsj_process_id = 42\<rparr>"

definition sample_env :: "nat \<Rightarrow> job_env" where
  "sample_env i =
     \<lparr>e_rand = 1 + i, e_interval_mem = Some sample_interval_mem,
      e_job_mem = Some sample_job_mem, e_id = ''u'', e_added = True\<rparr>"

definition zero_interval_mem :: TimeInterval where
  "zero_interval_mem = \<lparr>ti_start = 0, ti_end = 0, ti_duration = 0\<rparr>"

definition sample_started_job :: TimedServiceJob where
  "sample_started_job =
     \<lparr>tsj_job = \<lparr>sj_id = ''u1'', sj_name = ''job 0'', sj_description = ''duration 5'',
                 sj_type = ''long running service job'', sj_status = OS_STARTED,
                 sj_result = JSON_NULL\<rparr>,
      tsj_interval_p = \<lparr>ti_start = 100, ti_end = 105, ti_duration = 5\<rparr>,
      tsj_added_flag = True, tsj_process_id = 42\<rparr>"

definition sample_run_env :: "nat \<Rightarrow> run_env" where
  "sample_run_env i = \<lparr>r_start_time = 100, r_status_time = 100, r_added = (i = 0)\<rparr>"

definition sample_service :: Service where
  "sample_service = \<lparr>se_data_p = \<lparr>lsd_default_number_of_jobs = 3\<rparr>, se_jobs_p = None\<rparr>"

definition sample_params :: ParameterSet where
  "sample_params = [(''Number of Jobs'', UnsignedIntParameter (Some 2))]"

definition sample_doc_no_end :: json_t where
  "sample_doc_no_end =
     JSON_OBJECT
       [(''id'', JSON_STRING ''u1''), (''name'', JSON_STRING ''job 0''),
        (''description'', JSON_STRING ''duration 5''),
        (''type'', JSON_STRING ''long running service job''),
        (''status'', JSON_INTEGER 2), (''result'', JSON_NULL),
        (''start'', JSON_INTEGER 100)]"

text \<open>
  Modelled from the spec: a generic inline resource envelope around a payload, as
  \<^verbatim>\<open>GetDataResourceAsJSONByParts\<close> of the host framework builds it.
\<close>

definition sample_resource :: "json_t \<Rightarrow> json_t option" where
  "sample_resource data_p =
     Some (JSON_OBJECT [(''protocol'', JSON_STRING ''inline''),
                        (''title'', JSON_STRING ''Long Runner''), (''data'', data_p)])"

definition sample_running_service :: Service where
  "sample_running_service =
     \<lparr>se_data_p = \<lparr>lsd_default_number_of_jobs = 3\<rparr>, se_jobs_p = Some [sample_started_job]\<rparr>"

section \<open>Properties\<close>

subsection \<open>The status rule\<close>

lemma time_t_add_representable:
  "TIME_T_MIN \<le> a + b \<Longrightarrow> a + b \<le> TIME_T_MAX \<Longrightarrow> time_t_add a b = a + b"
  unfolding time_t_add_def TIME_T_MIN_def TIME_T_MAX_def
  by (rule signed_take_bit_int_eq_self) simp_all

lemma Start_interval:
  "tsj_interval_p (StartTimedServiceJob t0 J) =
     (tsj_interval_p J)\<lparr>ti_start := t0,
        ti_end := time_t_add t0 (ti_duration (tsj_interval_p J))\<rparr>"
  by (simp add: StartTimedServiceJob_def Let_def)

lemma Start_job:
  "tsj_job (StartTimedServiceJob t0 J) = (tsj_job J)\<lparr>sj_status := OS_STARTED\<rparr>"
  by (simp add: StartTimedServiceJob_def SetServiceJobStatus_def Let_def)

lemma Allocate_Some:
  "AllocateTimedServiceJob im jm u nm ds d = (Some J, evs) \<Longrightarrow>
     tsj_interval_p J = \<lparr>ti_start = 0, ti_end = 0, ti_duration = d\<rparr> \<and>
     tsj_job J = InitServiceJob u nm ds LRS_SERVICE_JOB_TYPE_S \<and>
     tsj_added_flag J = False \<and> evs = []"
  by (auto simp: AllocateTimedServiceJob_def Let_def split: option.splits)

lemma Allocate_mem:
  "AllocateTimedServiceJob (Some im) (Some jm) u nm ds d =
     (Some (jm\<lparr>tsj_interval_p := \<lparr>ti_start = 0, ti_end = 0, ti_duration = d\<rparr>,
               tsj_added_flag := False,
               tsj_job := InitServiceJob u nm ds LRS_SERVICE_JOB_TYPE_S\<rparr>), [])"
  by (simp add: AllocateTimedServiceJob_def Let_def)

lemma status_rule:
  "fst (GetTimedServiceJobStatus now J) =
     (if ti_start (tsj_interval_p J) = ti_end (tsj_interval_p J) then OS_IDLE
      else if now < ti_start (tsj_interval_p J) then OS_ERROR
      else if now \<le> ti_end (tsj_interval_p J) then OS_STARTED
      else OS_SUCCEEDED)"
  by (simp add: GetTimedServiceJobStatus_def Let_def)

lemma status_job:
  "snd (GetTimedServiceJobStatus now J) =
     J\<lparr>tsj_job := (tsj_job J)\<lparr>sj_status := fst (GetTimedServiceJobStatus now J)\<rparr>\<rparr>"
  by (simp add: GetTimedServiceJobStatus_def SetServiceJobStatus_def Let_def)

text \<open>
  C1, as the code has it. Let \<open>d > 0\<close>, and let the sum \<open>t0 + d\<close> be a value of
  \<^verbatim>\<open>time_t\<close>. A job allocated with the duration \<open>d\<close> is idle at every query time
  before it is started. Once \<^verbatim>\<open>StartTimedServiceJob\<close> has run at time \<open>t0\<close>, its
  interval is \<open>(t0, t0 + d, d)\<close>, its status is started at every query time in
  \<open>[t0, t0 + d]\<close> and succeeded at every query time after \<open>t0 + d\<close>.
\<close>

theorem C1_started_then_succeeded:
  "AllocateTimedServiceJob im jm u nm ds d = (Some J, evs) \<Longrightarrow> 0 < d \<Longrightarrow>
   TIME_T_MIN \<le> t0 + d \<Longrightarrow> t0 + d \<le> TIME_T_MAX \<Longrightarrow>
     tsj_interval_p (StartTimedServiceJob t0 J) =
       \<lparr>ti_start = t0, ti_end = t0 + d, ti_duration = d\<rparr> \<and>
     (\<forall>now. fst (GetTimedServiceJobStatus now J) = OS_IDLE) \<and>
     (\<forall>now. t0 \<le> now \<and> now \<le> t0 + d \<longrightarrow>
        fst (GetTimedServiceJobStatus now (StartTimedServiceJob t0 J)) = OS_STARTED) \<and>
     (\<forall>now. t0 + d < now \<longrightarrow>
        fst (GetTimedServiceJobStatus now (StartTimedServiceJob t0 J)) = OS_SUCCEEDED)"
  by (drule Allocate_Some)
     (simp add: Start_interval status_rule time_t_add_representable)

theorem C1_started_then_succeeded_witness:
  "fst (GetTimedServiceJobStatus 50
     (the (fst (AllocateTimedServiceJob (Some sample_interval_mem) (Some sample_job_mem)
        ''u1'' ''job 0'' ''duration 5'' 5)))) = OS_IDLE \<and>
   fst (GetTimedServiceJobStatus 100 (StartTimedServiceJob 100
     (the (fst (AllocateTimedServiceJob (Some sample_interval_mem) (Some sample_job_mem)
        ''u1'' ''job 0'' ''duration 5'' 5))))) = OS_STARTED \<and>
   fst (GetTimedServiceJobStatus 105 (StartTimedServiceJob 100
     (the (fst (AllocateTimedServiceJob (Some sample_interval_mem) (Some sample_job_mem)
        ''u1'' ''job 0'' ''duration 5'' 5))))) = OS_STARTED \<and>
   fst (GetTimedServiceJobStatus 106 (StartTimedServiceJob 100
     (the (fst (AllocateTimedServiceJob (Some sample_interval_mem) (Some sample_job_mem)
        ''u1'' ''job 0'' ''duration 5'' 5))))) = OS_SUCCEEDED"
proof -
  let ?J = "the (fst (AllocateTimedServiceJob (Some sample_interval_mem) (Some sample_job_mem)
        ''u1'' ''job 0'' ''duration 5'' 5))"
  have a: "AllocateTimedServiceJob (Some sample_interval_mem) (Some sample_job_mem)
        ''u1'' ''job 0'' ''duration 5'' 5 = (Some ?J, [])"
    by (simp add: Allocate_mem)
  have d: "(0::int) < 5" by simp
  have lo: "TIME_T_MIN \<le> 100 + 5" by (simp add: TIME_T_MIN_def TIME_T_BITS_def)
  have hi: "100 + 5 \<le> TIME_T_MAX" by (simp add: TIME_T_MAX_def TIME_T_BITS_def)
  from C1_started_then_succeeded [OF a d lo hi] show ?thesis by simp
qed

text \<open>
  C1 as stated fails in two ways. For the duration \<open>d = 0\<close>, a job started at time 100
  has equal start and end, so it is idle at the query time 100, which lies in
  \<open>[t0, t0 + d]\<close>, and it is still idle at the later query time 101. For the duration
  \<open>d = 9223372036854775807\<close>, the sum \<open>100 + d\<close> is not a value of \<^verbatim>\<open>time_t\<close>: the
  end wraps around to a time before the start, and the job started at time 100 is
  succeeded at the query time 100, which lies in \<open>[t0, t0 + d]\<close>.
\<close>

theorem C1_zero_or_overflowing_duration_counterexample:
  "fst (GetTimedServiceJobStatus 100 (StartTimedServiceJob 100
     (the (fst (AllocateTimedServiceJob (Some sample_interval_mem) (Some sample_job_mem)
        ''u1'' ''job 0'' ''duration 0'' 0))))) = OS_IDLE \<and>
   fst (GetTimedServiceJobStatus 101 (StartTimedServiceJob 100
     (the (fst (AllocateTimedServiceJob (Some sample_interval_mem) (Some sample_job_mem)
        ''u1'' ''job 0'' ''duration 0'' 0))))) = OS_IDLE \<and>
   fst (GetTimedServiceJobStatus 100 (StartTimedServiceJob 100
     (the (fst (AllocateTimedServiceJob (Some sample_interval_mem) (Some sample_job_mem)
        ''u1'' ''job 0'' ''duration 9223372036854775807'' 9223372036854775807))))) = OS_SUCCEEDED"
  by (simp add: Allocate_mem Start_interval status_rule time_t_add_def TIME_T_BITS_def)

text \<open>
  C3. \<^verbatim>\<open>GetTimedServiceJobStatus\<close> is the case split of the specification: idle when
  start and end are equal; otherwise error when the clock is before the start, started
  up to and including the end, succeeded after it. The job it leaves behind is the job
  it was given with the status field set to the result, and nothing else changed.
\<close>

theorem C3_status_case_split:
  "GetTimedServiceJobStatus now J =
     (let s = ti_start (tsj_interval_p J); e = ti_end (tsj_interval_p J);
          status = (if s = e then OS_IDLE
                    else if now < s then OS_ERROR
                    else if now \<le> e then OS_STARTED
                    else OS_SUCCEEDED)
      in (status, J\<lparr>tsj_job := (tsj_job J)\<lparr>sj_status := status\<rparr>\<rparr>))"
  by (simp add: GetTimedServiceJobStatus_def SetServiceJobStatus_def Let_def)

subsection \<open>Durations\<close>

lemma sint_of_nat_small:
  "k < 60 \<Longrightarrow> sint (word_of_nat k :: 32 word) = int k"
proof -
  assume k: "k < 60"
  have "sint (word_of_nat k :: 32 word) = signed_take_bit 31 (int k)"
    by (simp add: signed_of_nat)
  also have "\<dots> = int k"
    using k by (intro signed_take_bit_int_eq_self) auto
  finally show ?thesis .
qed

lemma job_duration_sint:
  assumes "sint md \<le> 2147483588"
  shows "sint (job_duration md r) = sint md + int (r mod 60)"
proof -
  have k: "r mod 60 < 60" by simp
  have lo: "- (2 ^ 31) \<le> sint md" using sint_greater_eq [of md] by simp
  have "sint (job_duration md r) = signed_take_bit 31 (sint md + int (r mod 60))"
    by (simp add: job_duration_def sint_word_add sint_of_nat_small [OF k] del: of_nat_mod)
  also have "\<dots> = sint md + int (r mod 60)"
    using assms lo k by (intro signed_take_bit_int_eq_self) auto
  finally show ?thesis .
qed



subsection \<open>The batch of jobs\<close>

lemma loop_step_ok:
  assumes "i < n" "turn_ok env i"
  shows "GetServiceJobSet_loop env n md i jobs evs =
         GetServiceJobSet_loop env n md (Suc i) (jobs @ [batch_job env md i]) evs"
proof -
  from assms(2) obtain im jm where m: "e_interval_mem (env i) = Some im" "e_job_mem (env i) = Some jm"
    and a: "e_added (env i)"
    by (auto simp: turn_ok_def)
  show ?thesis
    using assms(1) a
    by (subst GetServiceJobSet_loop.simps) (simp add: m Allocate_mem batch_job_def Let_def)
qed

lemma loop_step_fail:
  assumes "i < n" "\<not> turn_ok env i"
  shows "\<exists>evs'. GetServiceJobSet_loop env n md i jobs evs = (False, jobs, evs') \<and>
           (e_interval_mem (env i) \<noteq> None \<and> e_job_mem (env i) \<noteq> None \<longrightarrow>
              FreeBaseServiceJob (tsj_job (batch_job env md i)) \<in> set evs' \<and>
              FreeMemory_TimeInterval (tsj_interval_p (batch_job env md i)) \<in> set evs')"
  using assms
  by (subst GetServiceJobSet_loop.simps)
     (auto simp: turn_ok_def Allocate_mem batch_job_def FreeTimedServiceJob_def
        AllocateTimedServiceJob_def Let_def split: option.splits)

lemma loop_success:
  "(\<forall>k. i \<le> k \<and> k < n \<longrightarrow> turn_ok env k) \<Longrightarrow> i \<le> n \<Longrightarrow>
     GetServiceJobSet_loop env n md i jobs evs = (True, jobs @ map (batch_job env md) [i..<n], evs)"
proof (induction "n - i" arbitrary: i jobs)
  case 0
  then have "i = n" by simp
  then show ?case by (subst GetServiceJobSet_loop.simps) simp
next
  case (Suc m)
  then have lt: "i < n" by simp
  have ok: "turn_ok env i" using Suc.prems lt by simp
  have "GetServiceJobSet_loop env n md (Suc i) (jobs @ [batch_job env md i]) evs =
        (True, (jobs @ [batch_job env md i]) @ map (batch_job env md) [Suc i..<n], evs)"
    using Suc.hyps(2) Suc.prems lt by (intro Suc.hyps(1)) auto
  then show ?case
    using lt by (simp add: loop_step_ok [OF lt ok] upt_conv_Cons)
qed

lemma loop_failure:
  "i \<le> k \<Longrightarrow> k < n \<Longrightarrow> (\<forall>j. i \<le> j \<and> j < k \<longrightarrow> turn_ok env j) \<Longrightarrow> \<not> turn_ok env k \<Longrightarrow>
     \<exists>evs'. GetServiceJobSet_loop env n md i jobs evs =
        (False, jobs @ map (batch_job env md) [i..<k], evs') \<and>
        (e_interval_mem (env k) \<noteq> None \<and> e_job_mem (env k) \<noteq> None \<longrightarrow>
           FreeBaseServiceJob (tsj_job (batch_job env md k)) \<in> set evs' \<and>
           FreeMemory_TimeInterval (tsj_interval_p (batch_job env md k)) \<in> set evs')"
proof (induction "k - i" arbitrary: i jobs)
  case 0
  then have "i = k" by simp
  then show ?case using loop_step_fail [of k n env md jobs evs] 0 by simp
next
  case (Suc m)
  then have lt: "i < k" by simp
  then have ltn: "i < n" using Suc.prems by simp
  have ok: "turn_ok env i" using Suc.prems lt by simp
  have "\<exists>evs'. GetServiceJobSet_loop env n md (Suc i) (jobs @ [batch_job env md i]) evs =
        (False, (jobs @ [batch_job env md i]) @ map (batch_job env md) [Suc i..<k], evs') \<and>
        (e_interval_mem (env k) \<noteq> None \<and> e_job_mem (env k) \<noteq> None \<longrightarrow>
           FreeBaseServiceJob (tsj_job (batch_job env md k)) \<in> set evs' \<and>
           FreeMemory_TimeInterval (tsj_interval_p (batch_job env md k)) \<in> set evs')"
    using Suc.hyps(2) Suc.prems lt by (intro Suc.hyps(1)) auto
  then show ?case
    using lt by (simp add: loop_step_ok [OF ltn ok] upt_conv_Cons)
qed

lemma first_failure:
  "\<not> (\<forall>k<n. turn_ok env k) \<Longrightarrow> \<exists>k<n. \<not> turn_ok env k \<and> (\<forall>j<k. turn_ok env j)"
proof -
  assume "\<not> (\<forall>k<n. turn_ok env k)"
  then obtain k where k: "k < n \<and> \<not> turn_ok env k" by auto
  define m where "m = (LEAST k. k < n \<and> \<not> turn_ok env k)"
  have 1: "m < n \<and> \<not> turn_ok env m" unfolding m_def using k by (rule LeastI)
  have 2: "\<forall>j<m. turn_ok env j"
  proof (intro allI impI)
    fix j assume "j < m"
    then have "\<not> (j < n \<and> \<not> turn_ok env j)" unfolding m_def by (rule not_less_Least)
    moreover have "j < n" using \<open>j < m\<close> 1 by simp
    ultimately show "turn_ok env j" by simp
  qed
  show ?thesis using 1 2 by blast
qed

lemma GetServiceJobSet_success:
  "(\<forall>k<n. turn_ok env k) \<Longrightarrow>
   GetServiceJobSet True env n md = (Some (map (batch_job env md) [0..<n]), [])"
  using loop_success [of 0 n env md "[]" "[]"] by (simp add: GetServiceJobSet_def)

lemma GetServiceJobSet_failure:
  "k < n \<Longrightarrow> \<not> turn_ok env k \<Longrightarrow> (\<forall>j<k. turn_ok env j) \<Longrightarrow>
   \<exists>evs. GetServiceJobSet True env n md =
            (None, evs @ [FreeServiceJobSet (map (batch_job env md) [0..<k])]) \<and>
         (e_interval_mem (env k) \<noteq> None \<and> e_job_mem (env k) \<noteq> None \<longrightarrow>
            FreeBaseServiceJob (tsj_job (batch_job env md k)) \<in> set evs \<and>
            FreeMemory_TimeInterval (tsj_interval_p (batch_job env md k)) \<in> set evs)"
  using loop_failure [of 0 k n env md "[]" "[]"] by (auto simp: GetServiceJobSet_def)

lemma batch_job_duration:
  "sint md \<le> 2147483588 \<Longrightarrow>
   sint md \<le> ti_duration (tsj_interval_p (batch_job env md k)) \<and>
   ti_duration (tsj_interval_p (batch_job env md k)) \<le> sint md + 59"
proof -
  assume a: "sint md \<le> 2147483588"
  have "e_rand (env k) mod 60 < 60" by simp
  then have "int (e_rand (env k) mod 60) \<le> 59" by linarith
  then show ?thesis
    by (simp add: batch_job_def job_duration_sint [OF a] del: of_nat_mod)
qed

text \<open>
  C6, as the code has it. Let the minimum duration \<open>d\<close> be at most \<open>2147483588\<close>, so
  that \<open>d + 59\<close> is a 32-bit number. When the job set is allocated and every turn of the
  loop goes well, \<^verbatim>\<open>GetServiceJobSet\<close> returns exactly \<open>n\<close> jobs and logs nothing;
  the job at position \<open>k\<close> is not started, has a duration in \<open>[d, d + 59]\<close> and the name
  that is printed from \<open>k\<close>. Otherwise there is a first turn \<open>k\<close> that fails: the
  function returns no job set, it releases the job set with the \<open>k\<close> jobs built so far,
  and it releases the job of turn \<open>k\<close> if that one was allocated. When the job set itself
  cannot be allocated the function returns no job set.
\<close>

theorem C6_batch_all_or_nothing:
  assumes "sint md \<le> 2147483588"
  shows "((\<forall>k<n. turn_ok env k) \<longrightarrow>
            (\<exists>js. GetServiceJobSet True env n md = (Some js, []) \<and> length js = n \<and>
               (\<forall>k<n. sint md \<le> ti_duration (tsj_interval_p (js ! k)) \<and>
                      ti_duration (tsj_interval_p (js ! k)) \<le> sint md + 59 \<and>
                      ti_start (tsj_interval_p (js ! k)) = 0 \<and>
                      ti_end (tsj_interval_p (js ! k)) = 0 \<and>
                      sj_name (tsj_job (js ! k)) = job_name k))) \<and>
         (\<not> (\<forall>k<n. turn_ok env k) \<longrightarrow>
            (\<exists>k<n. \<exists>evs. (\<forall>j<k. turn_ok env j) \<and> \<not> turn_ok env k \<and>
               GetServiceJobSet True env n md =
                 (None, evs @ [FreeServiceJobSet (map (batch_job env md) [0..<k])]) \<and>
               (e_interval_mem (env k) \<noteq> None \<and> e_job_mem (env k) \<noteq> None \<longrightarrow>
                  FreeBaseServiceJob (tsj_job (batch_job env md k)) \<in> set evs \<and>
                  FreeMemory_TimeInterval (tsj_interval_p (batch_job env md k)) \<in> set evs))) \<and>
         GetServiceJobSet False env n md = (None, [])"
proof (intro conjI impI)
  assume ok: "\<forall>k<n. turn_ok env k"
  have "\<forall>k<n. sint md \<le> ti_duration (tsj_interval_p (batch_job env md k)) \<and>
           ti_duration (tsj_interval_p (batch_job env md k)) \<le> sint md + 59"
    using batch_job_duration [OF assms] by blast
  moreover have "\<forall>k<n. ti_start (tsj_interval_p (batch_job env md k)) = 0 \<and>
      ti_end (tsj_interval_p (batch_job env md k)) = 0 \<and>
      sj_name (tsj_job (batch_job env md k)) = job_name k"
    by (simp add: batch_job_def InitServiceJob_def)
  ultimately show "\<exists>js. GetServiceJobSet True env n md = (Some js, []) \<and> length js = n \<and>
               (\<forall>k<n. sint md \<le> ti_duration (tsj_interval_p (js ! k)) \<and>
                      ti_duration (tsj_interval_p (js ! k)) \<le> sint md + 59 \<and>
                      ti_start (tsj_interval_p (js ! k)) = 0 \<and>
                      ti_end (tsj_interval_p (js ! k)) = 0 \<and>
                      sj_name (tsj_job (js ! k)) = job_name k)"
    by (simp add: GetServiceJobSet_success [OF ok])
next
  assume "\<not> (\<forall>k<n. turn_ok env k)"
  then obtain k where k: "k < n" "\<not> turn_ok env k" "\<forall>j<k. turn_ok env j"
    using first_failure by blast
  from GetServiceJobSet_failure [OF k(1) k(2) k(3)] k
  show "\<exists>k<n. \<exists>evs. (\<forall>j<k. turn_ok env j) \<and> \<not> turn_ok env k \<and>
               GetServiceJobSet True env n md =
                 (None, evs @ [FreeServiceJobSet (map (batch_job env md) [0..<k])]) \<and>
               (e_interval_mem (env k) \<noteq> None \<and> e_job_mem (env k) \<noteq> None \<longrightarrow>
                  FreeBaseServiceJob (tsj_job (batch_job env md k)) \<in> set evs \<and>
                  FreeMemory_TimeInterval (tsj_interval_p (batch_job env md k)) \<in> set evs)"
    by blast
next
  show "GetServiceJobSet False env n md = (None, [])"
    by (simp add: GetServiceJobSet_def)
qed

theorem C6_batch_all_or_nothing_witness:
  "\<exists>js. GetServiceJobSet True sample_env 2 10 = (Some js, []) \<and> length js = 2 \<and>
      10 \<le> ti_duration (tsj_interval_p (js ! 1)) \<and> ti_duration (tsj_interval_p (js ! 1)) \<le> 69 \<and>
      sj_name (tsj_job (js ! 1)) = job_name 1"
proof -
  have a: "sint (10 :: 32 word) \<le> 2147483588" by simp
  have ok: "\<forall>k<2. turn_ok sample_env k" by (simp add: turn_ok_def sample_env_def)
  from C6_batch_all_or_nothing [OF a, of 2 sample_env] ok
  obtain js where js: "GetServiceJobSet True sample_env 2 10 = (Some js, [])" "length js = 2"
     "\<forall>k<2. sint (10 :: 32 word) \<le> ti_duration (tsj_interval_p (js ! k)) \<and>
                      ti_duration (tsj_interval_p (js ! k)) \<le> sint (10 :: 32 word) + 59 \<and>
                      ti_start (tsj_interval_p (js ! k)) = 0 \<and>
                      ti_end (tsj_interval_p (js ! k)) = 0 \<and>
                      sj_name (tsj_job (js ! k)) = job_name k"
    by blast
  from js(3) have "sint (10 :: 32 word) \<le> ti_duration (tsj_interval_p (js ! 1)) \<and>
                      ti_duration (tsj_interval_p (js ! 1)) \<le> sint (10 :: 32 word) + 59 \<and>
                      sj_name (tsj_job (js ! 1)) = job_name 1" by simp
  with js(1,2) show ?thesis by simp
qed

text \<open>
  C6 as stated fails for the minimum duration \<open>2147483647\<close>: with \<^verbatim>\<open>rand () % 60\<close>
  equal to 1 the 32-bit sum wraps around, and the only job of the batch gets the duration
  \<open>- 2147483648\<close>, which is below the minimum.
\<close>

theorem C6_overflow_counterexample:
  "map (ti_duration \<circ> tsj_interval_p)
     (the (fst (GetServiceJobSet True sample_env 1 2147483647))) = [- 2147483648] \<and>
   sint (2147483647 :: 32 word) = 2147483647"
  by (simp add: GetServiceJobSet_def GetServiceJobSet_loop.simps Allocate_mem sample_env_def
      job_duration_def)

subsection \<open>Serialising and rehydrating\<close>

lemma FromJSON_success:
  assumes "InitServiceJobFromJSON doc = Some base" "GetJSONLong doc LRS_START_S = Some s"
    "GetJSONLong doc LRS_END_S = Some e"
  shows "GetTimedServiceJobFromJSON (Some jmem) (Some imem) now reg doc =
     (let J = \<lparr>tsj_job = base, tsj_interval_p = imem\<lparr>ti_start := s, ti_end := e\<rparr>,
               tsj_added_flag = (case GetJSONBoolean doc LRS_ADDED_FLAG_S of Some b \<Rightarrow> b | None \<Rightarrow> False),
               tsj_process_id = tsj_process_id jmem\<rparr>;
          st = fst (GetTimedServiceJobStatus now J)
      in if sj_status base = OS_STARTED then
           (Some (J\<lparr>tsj_job := base\<lparr>sj_status := st\<rparr>\<rparr>),
            (if st \<noteq> OS_STARTED then reg(sj_id base := None) else reg), [])
         else (Some J, reg, []))"
  using assms
  by (cases jmem)
     (simp add: GetTimedServiceJobFromJSON_def Let_def GetServiceJobStatus_def
        RemoveServiceJobFromJobsManager_def GetTimedServiceJobStatus_def SetServiceJobStatus_def
        split: option.splits)

lemma FromJSON_missing:
  assumes "GetJSONLong doc LRS_START_S = None \<or> GetJSONLong doc LRS_END_S = None"
  shows "fst (GetTimedServiceJobFromJSON jm im now reg doc) = None"
    and "\<exists>evs. GetTimedServiceJobFromJSON (Some jmem) (Some imem) now reg doc = (None, reg, evs) \<and>
           (\<exists>ti. FreeMemory_TimeInterval ti \<in> set evs) \<and> (\<exists>b. FreeBaseServiceJob b \<in> set evs)"
  using assms
  by (auto simp: GetTimedServiceJobFromJSON_def Let_def FreeTimedServiceJob_def split: option.splits)

lemma code_inverse: "OperationStatus_of_code (OperationStatus_code st) = Some st"
  by (cases st) (simp_all add: OperationStatus_of_code_def)

lemma AsJSON_ok:
  "GetTimedServiceJobAsJSON True True True J =
     (Some (JSON_OBJECT
        [(''id'', JSON_STRING (sj_id (tsj_job J))),
         (''name'', JSON_STRING (sj_name (tsj_job J))),
         (''description'', JSON_STRING (sj_description (tsj_job J))),
         (''type'', JSON_STRING (sj_type (tsj_job J))),
         (''status'', JSON_INTEGER (OperationStatus_code (sj_status (tsj_job J)))),
         (''result'', sj_result (tsj_job J)),
         (''start'', JSON_INTEGER (ti_start (tsj_interval_p J))),
         (''end'', JSON_INTEGER (ti_end (tsj_interval_p J)))]), [])"
  by (simp add: GetTimedServiceJobAsJSON_def GetServiceJobAsJSON_def LRS_START_S_def LRS_END_S_def)

lemma doc_fields:
  fixes J :: TimedServiceJob
  defines "doc \<equiv> JSON_OBJECT
        [(''id'', JSON_STRING (sj_id (tsj_job J))),
         (''name'', JSON_STRING (sj_name (tsj_job J))),
         (''description'', JSON_STRING (sj_description (tsj_job J))),
         (''type'', JSON_STRING (sj_type (tsj_job J))),
         (''status'', JSON_INTEGER (OperationStatus_code (sj_status (tsj_job J)))),
         (''result'', sj_result (tsj_job J)),
         (''start'', JSON_INTEGER (ti_start (tsj_interval_p J))),
         (''end'', JSON_INTEGER (ti_end (tsj_interval_p J)))]"
  shows "InitServiceJobFromJSON doc = Some (tsj_job J)"
    and "GetJSONLong doc LRS_START_S = Some (ti_start (tsj_interval_p J))"
    and "GetJSONLong doc LRS_END_S = Some (ti_end (tsj_interval_p J))"
    and "GetJSONBoolean doc LRS_ADDED_FLAG_S = None"
  by (simp_all add: doc_def InitServiceJobFromJSON_def GetJSONString_def GetJSONLong_def
      GetJSONBoolean_def code_inverse LRS_START_S_def LRS_END_S_def LRS_ADDED_FLAG_S_def)

lemma Serialise_ok:
  "json_dumps (the (fst (GetTimedServiceJobAsJSON True True True J))) = Some job_s \<Longrightarrow>
   SerialiseTimedServiceJob True True True json_dumps J =
     (Some (job_s @ [CHR 0x00], (length job_s + 1) mod 2 ^ 32), [])"
  by (simp add: SerialiseTimedServiceJob_def AsJSON_ok)

lemma round_trip_fields:
  "\<exists>doc J'. GetTimedServiceJobAsJSON True True True J = (Some doc, []) \<and>
      GetTimedServiceJobFromJSON (Some jmem) (Some imem) now reg doc =
        (Some J',
         (if sj_status (tsj_job J) = OS_STARTED \<and> fst (GetTimedServiceJobStatus now J) \<noteq> OS_STARTED
          then reg(sj_id (tsj_job J) := None) else reg),
         []) \<and>
      sj_id (tsj_job J') = sj_id (tsj_job J) \<and>
      sj_name (tsj_job J') = sj_name (tsj_job J) \<and>
      sj_description (tsj_job J') = sj_description (tsj_job J) \<and>
      sj_type (tsj_job J') = sj_type (tsj_job J) \<and>
      sj_result (tsj_job J') = sj_result (tsj_job J) \<and>
      ti_start (tsj_interval_p J') = ti_start (tsj_interval_p J) \<and>
      ti_end (tsj_interval_p J') = ti_end (tsj_interval_p J) \<and>
      tsj_added_flag J' = False \<and>
      sj_status (tsj_job J') =
        (if sj_status (tsj_job J) = OS_STARTED then fst (GetTimedServiceJobStatus now J)
         else sj_status (tsj_job J))"
  by (simp add: AsJSON_ok FromJSON_success [OF doc_fields(1-3)] doc_fields(4) Let_def status_rule)

lemma round_trip_duration:
  "ti_duration (tsj_interval_p (the (fst
     (GetTimedServiceJobFromJSON (Some jmem) (Some imem) now reg
        (the (fst (GetTimedServiceJobAsJSON True True True J))))))) = ti_duration imem"
  by (simp add: AsJSON_ok FromJSON_success [OF doc_fields(1-3)] doc_fields(4) Let_def)

lemma buffer_round_trip_duration:
  assumes "json_dumps (the (fst (GetTimedServiceJobAsJSON True True True J))) = Some job_s"
    and "json_loads job_s = Some (the (fst (GetTimedServiceJobAsJSON True True True J)))"
  shows "\<exists>buf n. SerialiseTimedServiceJob True True True json_dumps J = (Some (buf, n), []) \<and>
           buf = job_s @ [CHR 0x00] \<and>
           ti_duration (tsj_interval_p (the (fst
             (GetTimedServiceJobFromJSON (Some jmem) (Some imem) now reg
                (the (json_loads (butlast buf))))))) = ti_duration imem"
  using assms by (simp add: Serialise_ok round_trip_duration)

text \<open>
  C2, at a started job with the interval \<open>(100, 105, 5)\<close>. The job is serialised with
  \<^verbatim>\<open>GetTimedServiceJobAsJSON\<close>, whose document \<^verbatim>\<open>SerialiseTimedServiceJob\<close> turns
  into text, and the document is rehydrated with \<^verbatim>\<open>GetTimedServiceJobFromJSON\<close>. The
  start 100 and the end 105 come back, but the duration does not: the rehydrated duration
  is 0 when the fresh block of memory for the interval held zeros and 9 when it held a
  9, because the function never assigns \<^verbatim>\<open>ti_duration\<close>. The duration of the job was 5,
  which is also its end minus its start.
\<close>

theorem C2_duration_not_restored:
  "ti_duration (tsj_interval_p (the (fst
     (GetTimedServiceJobFromJSON (Some sample_job_mem) (Some zero_interval_mem) 103 Map.empty
        (the (fst (GetTimedServiceJobAsJSON True True True sample_started_job))))))) = 0 \<and>
   ti_duration (tsj_interval_p (the (fst
     (GetTimedServiceJobFromJSON (Some sample_job_mem) (Some sample_interval_mem) 103 Map.empty
        (the (fst (GetTimedServiceJobAsJSON True True True sample_started_job))))))) = 9 \<and>
   ti_start (tsj_interval_p (the (fst
     (GetTimedServiceJobFromJSON (Some sample_job_mem) (Some zero_interval_mem) 103 Map.empty
        (the (fst (GetTimedServiceJobAsJSON True True True sample_started_job))))))) = 100 \<and>
   ti_end (tsj_interval_p (the (fst
     (GetTimedServiceJobFromJSON (Some sample_job_mem) (Some zero_interval_mem) 103 Map.empty
        (the (fst (GetTimedServiceJobAsJSON True True True sample_started_job))))))) = 105 \<and>
   ti_duration (tsj_interval_p sample_started_job) = 5"
proof -
  have se: "ti_start (tsj_interval_p (the (fst
     (GetTimedServiceJobFromJSON (Some jmem) (Some imem) now reg
        (the (fst (GetTimedServiceJobAsJSON True True True J))))))) = ti_start (tsj_interval_p J) \<and>
    ti_end (tsj_interval_p (the (fst
     (GetTimedServiceJobFromJSON (Some jmem) (Some imem) now reg
        (the (fst (GetTimedServiceJobAsJSON True True True J))))))) = ti_end (tsj_interval_p J)"
    for jmem imem now reg J
    by (simp add: AsJSON_ok FromJSON_success [OF doc_fields(1-3)] doc_fields(4) Let_def)
  show ?thesis
    by (simp add: round_trip_duration se)
       (simp add: zero_interval_mem_def sample_interval_mem_def sample_started_job_def)
qed

text \<open>
  C4. Let the document have its base fields, a start \<open>s\<close> and an end \<open>e\<close>, and let
  both allocations succeed. If the stored status is started, the returned job carries the
  status that the rule computes from \<open>s\<close>, \<open>e\<close> and the clock, and the entry of the
  job is removed from the registry exactly when that status is not started. If the stored
  status is not started, the returned job carries the stored status, the registry is
  unchanged, and the result does not depend on the clock.
\<close>

theorem C4_reconciliation:
  assumes "InitServiceJobFromJSON doc = Some base" "GetJSONLong doc LRS_START_S = Some s"
    "GetJSONLong doc LRS_END_S = Some e"
  shows "\<exists>J. (sj_status base = OS_STARTED \<longrightarrow>
            (let st = (if s = e then OS_IDLE else if now < s then OS_ERROR
                       else if now \<le> e then OS_STARTED else OS_SUCCEEDED)
             in GetTimedServiceJobFromJSON (Some jmem) (Some imem) now reg doc =
                  (Some J, (if st \<noteq> OS_STARTED then reg(sj_id base := None) else reg), []) \<and>
                sj_status (tsj_job J) = st \<and> sj_id (tsj_job J) = sj_id base)) \<and>
          (sj_status base \<noteq> OS_STARTED \<longrightarrow>
            (\<forall>now'. GetTimedServiceJobFromJSON (Some jmem) (Some imem) now' reg doc =
                      (Some J, reg, [])) \<and>
            sj_status (tsj_job J) = sj_status base \<and> sj_id (tsj_job J) = sj_id base)"
  by (cases "sj_status base = OS_STARTED")
     (simp_all add: FromJSON_success [OF assms] Let_def status_rule)

theorem C4_reconciliation_witness:
  "(let r = GetTimedServiceJobFromJSON (Some sample_job_mem) (Some zero_interval_mem) 200
              [''u1'' \<mapsto> sample_started_job]
              (the (fst (GetTimedServiceJobAsJSON True True True sample_started_job)))
    in map_option (sj_status \<circ> tsj_job) (fst r) = Some OS_SUCCEEDED \<and> fst (snd r) ''u1'' = None)"
proof -
  let ?doc = "the (fst (GetTimedServiceJobAsJSON True True True sample_started_job))"
  have a: "InitServiceJobFromJSON ?doc = Some (tsj_job sample_started_job)"
    and b: "GetJSONLong ?doc LRS_START_S = Some 100"
    and c: "GetJSONLong ?doc LRS_END_S = Some 105"
    using doc_fields(1-3) [of sample_started_job]
    by (simp_all add: AsJSON_ok) (simp_all add: sample_started_job_def)
  have d: "sj_status (tsj_job sample_started_job) = OS_STARTED"
    "sj_id (tsj_job sample_started_job) = ''u1''"
    by (simp_all add: sample_started_job_def)
  from C4_reconciliation [OF a b c, of 200 sample_job_mem zero_interval_mem
      "[''u1'' \<mapsto> sample_started_job]"] d
  show ?thesis by (auto simp: Let_def)
qed

text \<open>
  C8. When the member \<open>start\<close> or the member \<open>end\<close> of the document is absent (or not
  an integer), \<^verbatim>\<open>GetTimedServiceJobFromJSON\<close> returns no job, whatever the
  allocations give; when both blocks were allocated it releases them and leaves the
  registry as it was. When the base fields, \<open>start\<close> and \<open>end\<close> are present the
  function returns a job whose flag is the boolean member \<open>added_to_job_manager\<close> of the
  document, and false when that member is absent.
\<close>

theorem C8_required_fields:
  "(GetJSONLong doc LRS_START_S = None \<or> GetJSONLong doc LRS_END_S = None \<longrightarrow>
      fst (GetTimedServiceJobFromJSON jm im now reg doc) = None \<and>
      (\<exists>evs. GetTimedServiceJobFromJSON (Some jmem) (Some imem) now reg doc = (None, reg, evs) \<and>
         (\<exists>ti. FreeMemory_TimeInterval ti \<in> set evs) \<and> (\<exists>b. FreeBaseServiceJob b \<in> set evs))) \<and>
   (json_object_get doc LRS_START_S = None \<longrightarrow> GetJSONLong doc LRS_START_S = None) \<and>
   (json_object_get doc LRS_END_S = None \<longrightarrow> GetJSONLong doc LRS_END_S = None) \<and>
   (InitServiceJobFromJSON doc \<noteq> None \<and> GetJSONLong doc LRS_START_S \<noteq> None \<and>
    GetJSONLong doc LRS_END_S \<noteq> None \<longrightarrow>
      (\<exists>J. fst (GetTimedServiceJobFromJSON (Some jmem) (Some imem) now reg doc) = Some J \<and>
         tsj_added_flag J =
           (case GetJSONBoolean doc LRS_ADDED_FLAG_S of Some b \<Rightarrow> b | None \<Rightarrow> False) \<and>
         (json_object_get doc LRS_ADDED_FLAG_S = None \<longrightarrow> \<not> tsj_added_flag J)))"
proof (intro conjI impI)
  assume m: "GetJSONLong doc LRS_START_S = None \<or> GetJSONLong doc LRS_END_S = None"
  show "fst (GetTimedServiceJobFromJSON jm im now reg doc) = None"
    by (rule FromJSON_missing(1) [OF m])
  show "\<exists>evs. GetTimedServiceJobFromJSON (Some jmem) (Some imem) now reg doc = (None, reg, evs) \<and>
         (\<exists>ti. FreeMemory_TimeInterval ti \<in> set evs) \<and> (\<exists>b. FreeBaseServiceJob b \<in> set evs)"
    by (rule FromJSON_missing(2) [OF m])
next
  assume "json_object_get doc LRS_START_S = None"
  then show "GetJSONLong doc LRS_START_S = None" by (simp add: GetJSONLong_def)
next
  assume "json_object_get doc LRS_END_S = None"
  then show "GetJSONLong doc LRS_END_S = None" by (simp add: GetJSONLong_def)
next
  assume "InitServiceJobFromJSON doc \<noteq> None \<and> GetJSONLong doc LRS_START_S \<noteq> None \<and>
    GetJSONLong doc LRS_END_S \<noteq> None"
  then obtain base s e where h: "InitServiceJobFromJSON doc = Some base"
    "GetJSONLong doc LRS_START_S = Some s" "GetJSONLong doc LRS_END_S = Some e"
    by auto
  show "\<exists>J. fst (GetTimedServiceJobFromJSON (Some jmem) (Some imem) now reg doc) = Some J \<and>
         tsj_added_flag J =
           (case GetJSONBoolean doc LRS_ADDED_FLAG_S of Some b \<Rightarrow> b | None \<Rightarrow> False) \<and>
         (json_object_get doc LRS_ADDED_FLAG_S = None \<longrightarrow> \<not> tsj_added_flag J)"
    by (simp add: FromJSON_success [OF h] Let_def GetJSONBoolean_def)
qed

theorem C8_required_fields_witness:
  "fst (GetTimedServiceJobFromJSON (Some sample_job_mem) (Some zero_interval_mem) 103 Map.empty
      sample_doc_no_end) = None \<and>
   map_option tsj_added_flag
     (fst (GetTimedServiceJobFromJSON (Some sample_job_mem) (Some zero_interval_mem) 103 Map.empty
        (the (fst (GetTimedServiceJobAsJSON True True True sample_started_job))))) = Some False"
proof -
  let ?doc = "the (fst (GetTimedServiceJobAsJSON True True True sample_started_job))"
  have m: "json_object_get sample_doc_no_end LRS_END_S = None"
    by (simp add: sample_doc_no_end_def LRS_END_S_def)
  have a: "InitServiceJobFromJSON ?doc \<noteq> None \<and> GetJSONLong ?doc LRS_START_S \<noteq> None \<and>
      GetJSONLong ?doc LRS_END_S \<noteq> None"
    and f: "json_object_get ?doc LRS_ADDED_FLAG_S = None"
    using doc_fields(1-3) [of sample_started_job]
    by (simp_all add: AsJSON_ok LRS_ADDED_FLAG_S_def)
  from C8_required_fields [of sample_doc_no_end "Some sample_job_mem" "Some zero_interval_mem" 103 Map.empty
      sample_job_mem zero_interval_mem] m
  have 1: "fst (GetTimedServiceJobFromJSON (Some sample_job_mem) (Some zero_interval_mem) 103
      Map.empty sample_doc_no_end) = None"
    by auto
  from C8_required_fields [of ?doc None None 103 Map.empty sample_job_mem zero_interval_mem] a f
  have 2: "map_option tsj_added_flag
     (fst (GetTimedServiceJobFromJSON (Some sample_job_mem) (Some zero_interval_mem) 103 Map.empty
        ?doc)) = Some False"
    by auto
  from 1 2 show ?thesis by simp
qed

subsection \<open>The result query\<close>

lemma Results_known:
  "jobs_manager_p job_id = Some job_p \<Longrightarrow> wrap_fn (the (json_pack_ex True ''start'' (ti_start (tsj_interval_p job_p))
                  ''end'' (ti_end (tsj_interval_p job_p)))) \<noteq> None \<Longrightarrow>
   GetLongRunningResultsAsJSON True wrap_fn True True jobs_manager_p job_id =
     (Some (JSON_ARRAY [JSON_OBJECT
        [(''start'', JSON_INTEGER (sint (word_of_int (ti_start (tsj_interval_p job_p)) :: 32 word))),
         (''end'', JSON_INTEGER (sint (word_of_int (ti_end (tsj_interval_p job_p)) :: 32 word)))]]), [])"
  by (auto simp: GetLongRunningResultsAsJSON_def GetServiceJobFromJobsManager_def json_pack_ex_def
      json_array_def split: option.splits)

lemma Results_unknown:
  "jobs_manager_p job_id = None \<Longrightarrow>
   GetLongRunningResultsAsJSON pack_ok wrap_fn array_ok append_ok jobs_manager_p job_id =
     (None, [PrintErrors ''Failed to get job data for \"%s\"'' [Arg_string job_id]])"
  by (simp add: GetLongRunningResultsAsJSON_def GetServiceJobFromJobsManager_def)

text \<open>
  C5, at a known identifier. The registry holds the job \<open>u1\<close> with start 100 and end
  105, and every call into the library succeeds. \<^verbatim>\<open>GetLongRunningResultsAsJSON\<close>
  returns a list of one element, and that element is the bare object with the members
  \<open>start\<close> and \<open>end\<close>: the resource that \<^verbatim>\<open>GetDataResourceAsJSONByParts\<close> built
  around it is not what the function appends to the list.
\<close>

theorem C5_result_is_not_wrapped:
  "GetLongRunningResultsAsJSON True sample_resource True True [''u1'' \<mapsto> sample_started_job] ''u1'' =
     (Some (JSON_ARRAY [JSON_OBJECT [(''start'', JSON_INTEGER 100), (''end'', JSON_INTEGER 105)]]), [])"
  by (simp add: Results_known sample_resource_def) (simp add: sample_started_job_def)


subsection \<open>Running the service\<close>

lemma turn_job:
  "fst (RunLongRunningService_turn e j jm) =
     j\<lparr>tsj_interval_p := (tsj_interval_p j)\<lparr>ti_start := r_start_time e,
           ti_end := time_t_add (r_start_time e) (ti_duration (tsj_interval_p j))\<rparr>,
        tsj_job := (tsj_job j)\<lparr>sj_status :=
           fst (GetTimedServiceJobStatus (r_status_time e) (StartTimedServiceJob (r_start_time e) j))\<rparr>,
        tsj_added_flag := r_added e\<rparr>"
  by (simp add: RunLongRunningService_turn_def Let_def split_beta status_job Start_job
      Start_interval SetServiceJobStatus_def AddServiceJobToJobsManager_def StartTimedServiceJob_def)

lemma turn_registry:
  "fst (snd (RunLongRunningService_turn e j jm)) =
     (if r_added e then jm(sj_id (tsj_job j) \<mapsto> fst (RunLongRunningService_turn e j jm)) else jm)"
  by (simp add: RunLongRunningService_turn_def Let_def split_beta status_job Start_job
      Start_interval SetServiceJobStatus_def AddServiceJobToJobsManager_def StartTimedServiceJob_def)

lemma turn_events:
  "snd (snd (RunLongRunningService_turn e j jm)) =
     (if r_added e then []
      else [PrintErrors ''Failed to add job \"%s\" to JobsManager'' [Arg_string (sj_id (tsj_job j))]])"
  by (simp add: RunLongRunningService_turn_def Let_def split_beta status_job Start_job
      SetServiceJobStatus_def AddServiceJobToJobsManager_def)

lemma run_loop_length:
  "length (fst (RunLongRunningService_loop env k js jm)) = length js"
  by (induction js arbitrary: k jm) (simp_all add: Let_def split_beta)

lemma run_loop_nth:
  "i < length js \<Longrightarrow>
     fst (RunLongRunningService_loop env k js jm) ! i =
       fst (RunLongRunningService_turn (env (k + i)) (js ! i) Map.empty)"
proof (induction js arbitrary: k jm i)
  case Nil
  then show ?case by simp
next
  case (Cons j js)
  show ?case
  proof (cases i)
    case 0
    then show ?thesis by (simp add: Let_def split_beta turn_job)
  next
    case (Suc i')
    then have "i' < length js" using Cons.prems by simp
    from Cons.IH [OF this, of "Suc k"] Suc show ?thesis
      by (simp add: Let_def split_beta)
  qed
qed

lemma run_loop_events:
  "i < length js \<Longrightarrow> \<not> r_added (env (k + i)) \<Longrightarrow>
     PrintErrors ''Failed to add job \"%s\" to JobsManager'' [Arg_string (sj_id (tsj_job (js ! i)))]
       \<in> set (snd (snd (RunLongRunningService_loop env k js jm)))"
proof (induction js arbitrary: k jm i)
  case Nil
  then show ?case by simp
next
  case (Cons j js)
  show ?case
  proof (cases i)
    case 0
    then show ?thesis using Cons.prems by (simp add: Let_def split_beta turn_events)
  next
    case (Suc i')
    then have "i' < length js" "\<not> r_added (env (Suc k + i'))" using Cons.prems by simp_all
    from Cons.IH [OF this] Suc show ?thesis
      by (simp add: Let_def split_beta)
  qed
qed

lemma run_loop_registry_unchanged:
  "(\<forall>i<length js. r_added (env (k + i)) \<longrightarrow> sj_id (tsj_job (js ! i)) \<noteq> u) \<Longrightarrow>
     fst (snd (RunLongRunningService_loop env k js jm)) u = jm u"
proof (induction js arbitrary: k jm)
  case Nil
  then show ?case by simp
next
  case (Cons j js)
  have 0: "r_added (env k) \<longrightarrow> sj_id (tsj_job j) \<noteq> u" using Cons.prems by fastforce
  have "\<forall>i<length js. r_added (env (Suc k + i)) \<longrightarrow> sj_id (tsj_job (js ! i)) \<noteq> u"
    using Cons.prems by fastforce
  from Cons.IH [OF this, of "fst (snd (RunLongRunningService_turn (env k) j jm))"] 0 show ?case
    by (auto simp: Let_def split_beta turn_registry)
qed

lemma run_loop_registry_keeps:
  "jm u \<noteq> None \<Longrightarrow> fst (snd (RunLongRunningService_loop env k js jm)) u \<noteq> None"
proof (induction js arbitrary: k jm)
  case Nil
  then show ?case by simp
next
  case (Cons j js)
  have "fst (snd (RunLongRunningService_turn (env k) j jm)) u \<noteq> None"
    using Cons.prems by (simp add: turn_registry)
  then have "fst (snd (RunLongRunningService_loop env (Suc k) js
      (fst (snd (RunLongRunningService_turn (env k) j jm))))) u \<noteq> None"
    by (rule Cons.IH)
  then show ?case
    by (simp add: Let_def split_beta)
qed

lemma run_loop_registered:
  "i < length js \<Longrightarrow> r_added (env (k + i)) \<Longrightarrow>
     fst (snd (RunLongRunningService_loop env k js jm)) (sj_id (tsj_job (js ! i))) \<noteq> None"
proof (induction js arbitrary: k jm i)
  case Nil
  then show ?case by simp
next
  case (Cons j js)
  show ?case
  proof (cases i)
    case 0
    have "fst (snd (RunLongRunningService_turn (env k) j jm)) (sj_id (tsj_job j)) \<noteq> None"
      using Cons.prems 0 by (simp add: turn_registry)
    then have "fst (snd (RunLongRunningService_loop env (Suc k) js
        (fst (snd (RunLongRunningService_turn (env k) j jm))))) (sj_id (tsj_job j)) \<noteq> None"
      by (rule run_loop_registry_keeps)
    with 0 show ?thesis
      by (simp add: Let_def split_beta)
  next
    case (Suc i')
    then have "i' < length js" "r_added (env (Suc k + i'))" using Cons.prems by simp_all
    from Cons.IH [OF this] Suc show ?thesis
      by (simp add: Let_def split_beta)
  qed
qed

text \<open>
  C7. Let the run request name \<open>n > 0\<close> jobs and let \<^verbatim>\<open>GetServiceJobSet\<close> build
  the job set \<open>js\<close>. \<^verbatim>\<open>RunLongRunningService\<close> then returns a job set of the same
  length, in the same order. The job at position \<open>i\<close> is started: its interval is
  stamped with the clock reading of its turn (the end is the \<^verbatim>\<open>time_t\<close> sum of that
  reading and the duration), and its status is the one computed right after. Its flag is true exactly when the jobs manager accepted it; an accepted job is
  in the registry afterwards; for a rejected job the failure is logged with the
  identifier of the job, its flag is false, and it is still a member of the returned job
  set, as are the jobs after it. The registry changes at the identifiers of accepted jobs
  only.
\<close>

theorem C7_run_registers_every_job:
  assumes ps: "GetCurrentUnsignedIntParameterValueFromParameterSet ps LRS_NUMBER_OF_JOBS = (True, Some n)"
    and n: "0 < n"
    and js: "GetServiceJobSet set_ok jenv n
               (case snd (GetCurrentSignedIntParameterValueFromParameterSet ps LRS_MIN_DURATION) of
                  Some d \<Rightarrow> d | None \<Rightarrow> 1) = (Some js, evs0)"
    and run: "RunLongRunningService set_ok jenv renv svc jm ps = (svc', jm', evs)"
  shows "\<exists>js'. se_jobs_p svc' = Some js' \<and> length js' = length js \<and>
     (\<forall>i<length js.
        tsj_interval_p (js' ! i) =
          (tsj_interval_p (js ! i))\<lparr>ti_start := r_start_time (renv i),
             ti_end := time_t_add (r_start_time (renv i))
                         (ti_duration (tsj_interval_p (js ! i)))\<rparr> \<and>
        tsj_job (js' ! i) =
          (tsj_job (js ! i))\<lparr>sj_status :=
             fst (GetTimedServiceJobStatus (r_status_time (renv i))
                    (StartTimedServiceJob (r_start_time (renv i)) (js ! i)))\<rparr> \<and>
        tsj_added_flag (js' ! i) = r_added (renv i) \<and>
        (r_added (renv i) \<longrightarrow> jm' (sj_id (tsj_job (js ! i))) \<noteq> None) \<and>
        (\<not> r_added (renv i) \<longrightarrow>
           PrintErrors ''Failed to add job \"%s\" to JobsManager''
             [Arg_string (sj_id (tsj_job (js ! i)))] \<in> set evs)) \<and>
     (\<forall>u. (\<forall>i<length js. r_added (renv i) \<longrightarrow> sj_id (tsj_job (js ! i)) \<noteq> u) \<longrightarrow> jm' u = jm u)"
proof -
  let ?r = "RunLongRunningService_loop renv 0 js jm"
  have r: "svc' = svc\<lparr>se_jobs_p := Some (fst ?r)\<rparr>" "jm' = fst (snd ?r)"
    "evs = evs0 @ snd (snd ?r)"
    using run n by (simp_all add: RunLongRunningService_def ps js Let_def split_beta)
  have 1: "length (fst ?r) = length js" by (rule run_loop_length)
  have 2: "\<forall>i<length js.
        tsj_interval_p (fst ?r ! i) =
          (tsj_interval_p (js ! i))\<lparr>ti_start := r_start_time (renv i),
             ti_end := time_t_add (r_start_time (renv i))
                         (ti_duration (tsj_interval_p (js ! i)))\<rparr> \<and>
        tsj_job (fst ?r ! i) =
          (tsj_job (js ! i))\<lparr>sj_status :=
             fst (GetTimedServiceJobStatus (r_status_time (renv i))
                    (StartTimedServiceJob (r_start_time (renv i)) (js ! i)))\<rparr> \<and>
        tsj_added_flag (fst ?r ! i) = r_added (renv i)"
    using run_loop_nth [of _ js renv 0 jm] by (simp add: turn_job)
  have 3: "\<forall>i<length js. r_added (renv i) \<longrightarrow> jm' (sj_id (tsj_job (js ! i))) \<noteq> None"
    using run_loop_registered [of _ js renv 0 jm] by (simp add: r(2))
  have 4: "\<forall>i<length js. \<not> r_added (renv i) \<longrightarrow>
           PrintErrors ''Failed to add job \"%s\" to JobsManager''
             [Arg_string (sj_id (tsj_job (js ! i)))] \<in> set evs"
    using run_loop_events [of _ js renv 0 jm] by (simp add: r(3))
  have 5: "\<forall>u. (\<forall>i<length js. r_added (renv i) \<longrightarrow> sj_id (tsj_job (js ! i)) \<noteq> u) \<longrightarrow> jm' u = jm u"
    using run_loop_registry_unchanged [of js renv 0 _ jm] by (simp add: r(2))
  show ?thesis
    using 1 2 3 4 5 by (simp add: r(1))
qed

theorem C7_run_registers_every_job_witness:
  "\<exists>js'. se_jobs_p (fst (RunLongRunningService True sample_env sample_run_env sample_service
             Map.empty sample_params)) = Some js' \<and>
     length js' = 2 \<and> tsj_added_flag (js' ! 0) \<and> \<not> tsj_added_flag (js' ! 1) \<and>
     ti_start (tsj_interval_p (js' ! 1)) = 100"
proof -
  let ?js = "map (batch_job sample_env 1) [0..<2]"
  obtain svc' jm' evs where run: "RunLongRunningService True sample_env sample_run_env sample_service
             Map.empty sample_params = (svc', jm', evs)"
    by (cases "RunLongRunningService True sample_env sample_run_env sample_service
             Map.empty sample_params")
  have ps: "GetCurrentUnsignedIntParameterValueFromParameterSet sample_params LRS_NUMBER_OF_JOBS
      = (True, Some 2)"
    by (simp add: GetCurrentUnsignedIntParameterValueFromParameterSet_def sample_params_def
        LRS_NUMBER_OF_JOBS_def)
  have md: "(case snd (GetCurrentSignedIntParameterValueFromParameterSet sample_params
      LRS_MIN_DURATION) of Some d \<Rightarrow> d | None \<Rightarrow> 1) = 1"
    by (simp add: GetCurrentSignedIntParameterValueFromParameterSet_def sample_params_def
        LRS_MIN_DURATION_def)
  have ok: "\<forall>k<2. turn_ok sample_env k" by (simp add: turn_ok_def sample_env_def)
  have js: "GetServiceJobSet True sample_env 2
      (case snd (GetCurrentSignedIntParameterValueFromParameterSet sample_params
      LRS_MIN_DURATION) of Some d \<Rightarrow> d | None \<Rightarrow> 1) = (Some ?js, [])"
    unfolding md by (rule GetServiceJobSet_success [OF ok])
  have n: "(0::nat) < 2" by simp
  from C7_run_registers_every_job [OF ps n js run]
  obtain js' where j: "se_jobs_p svc' = Some js'" "length js' = length ?js"
    "\<forall>i<length ?js.
        tsj_interval_p (js' ! i) =
          (tsj_interval_p (?js ! i))\<lparr>ti_start := r_start_time (sample_run_env i),
             ti_end := time_t_add (r_start_time (sample_run_env i))
                         (ti_duration (tsj_interval_p (?js ! i)))\<rparr> \<and>
        tsj_job (js' ! i) =
          (tsj_job (?js ! i))\<lparr>sj_status :=
             fst (GetTimedServiceJobStatus (r_status_time (sample_run_env i))
                    (StartTimedServiceJob (r_start_time (sample_run_env i)) (?js ! i)))\<rparr> \<and>
        tsj_added_flag (js' ! i) = r_added (sample_run_env i)"
    by blast
  have l: "length ?js = 2" by simp
  from j(3) l have a0: "tsj_added_flag (js' ! 0) = r_added (sample_run_env 0)"
    and a1: "tsj_added_flag (js' ! 1) = r_added (sample_run_env 1)"
    and t1: "ti_start (tsj_interval_p (js' ! 1)) = r_start_time (sample_run_env 1)"
    by simp_all
  show ?thesis
    using j(1,2) l a0 a1 t1 run by (simp add: sample_run_env_def)
qed

subsection \<open>Closing the service\<close>

lemma close_loop_flag:
  "fst (CloseLongRunningService_loop clock k js) =
     (\<forall>i<length js. fst (GetTimedServiceJobStatus (clock (k + i)) (js ! i)) \<noteq> OS_PENDING \<and>
                     fst (GetTimedServiceJobStatus (clock (k + i)) (js ! i)) \<noteq> OS_STARTED)"
proof (induction js arbitrary: k)
  case Nil
  then show ?case by simp
next
  case (Cons j js)
  have "(\<forall>i<length (j # js). P i) = (P 0 \<and> (\<forall>i<length js. P (Suc i)))" for P
    by (auto simp: less_Suc_eq_0_disj)
  then show ?case using Cons.IH [of "Suc k"]
    by (simp add: Let_def split_beta)
qed


lemma close_loop_flag2:
  "fst (CloseLongRunningService_loop clock 0 js) =
     (\<forall>i<length js. fst (GetTimedServiceJobStatus (clock i) (js ! i)) \<noteq> OS_PENDING \<and>
                     fst (GetTimedServiceJobStatus (clock i) (js ! i)) \<noteq> OS_STARTED)"
  using close_loop_flag [of clock 0 js] by simp

text \<open>
  C9. \<^verbatim>\<open>CloseLongRunningService\<close> returns true exactly when no job of the service
  has the status pending or started, the status of the job at position \<open>i\<close> being the one
  \<^verbatim>\<open>GetTimedServiceJobStatus\<close> computes at the clock reading \<open>clock i\<close>. It releases
  the data of the service when it returns true, and releases nothing when it returns
  false. A service without a job set closes.
\<close>

theorem C9_close_refused_while_started:
  "CloseLongRunningService clock svc = (close_flag, svc', evs) \<Longrightarrow>
     close_flag =
       (\<forall>i<length (case se_jobs_p svc of Some js \<Rightarrow> js | None \<Rightarrow> []).
          fst (GetTimedServiceJobStatus (clock i)
                 ((case se_jobs_p svc of Some js \<Rightarrow> js | None \<Rightarrow> []) ! i)) \<noteq> OS_PENDING \<and>
          fst (GetTimedServiceJobStatus (clock i)
                 ((case se_jobs_p svc of Some js \<Rightarrow> js | None \<Rightarrow> []) ! i)) \<noteq> OS_STARTED) \<and>
     evs = (if close_flag then [FreeLongRunningServiceData (se_data_p svc)] else [])"
proof (cases "se_jobs_p svc")
  case None
  assume "CloseLongRunningService clock svc = (close_flag, svc', evs)"
  then show ?thesis using None
    by (auto simp: CloseLongRunningService_def Let_def)
next
  case (Some js)
  assume "CloseLongRunningService clock svc = (close_flag, svc', evs)"
  then have "close_flag = fst (CloseLongRunningService_loop clock 0 js)"
    and "evs = (if close_flag then [FreeLongRunningServiceData (se_data_p svc)] else [])"
    using Some by (auto simp: CloseLongRunningService_def Let_def split_beta split: if_splits)
  then show ?thesis using Some by (simp add: close_loop_flag2)
qed

theorem C9_close_refused_while_started_witness:
  "CloseLongRunningService (\<lambda>k. 103) sample_running_service =
     (False, sample_running_service, []) \<and>
   fst (CloseLongRunningService (\<lambda>k. 106) sample_running_service) = True \<and>
   snd (snd (CloseLongRunningService (\<lambda>k. 106) sample_running_service)) =
     [FreeLongRunningServiceData \<lparr>lsd_default_number_of_jobs = 3\<rparr>]"
proof -
  obtain f1 s1 e1 where 1: "CloseLongRunningService (\<lambda>k. 103) sample_running_service = (f1, s1, e1)"
    by (cases "CloseLongRunningService (\<lambda>k. 103) sample_running_service")
  obtain f2 s2 e2 where 2: "CloseLongRunningService (\<lambda>k. 106) sample_running_service = (f2, s2, e2)"
    by (cases "CloseLongRunningService (\<lambda>k. 106) sample_running_service")
  have "\<not> f1 \<and> e1 = []"
    using C9_close_refused_while_started [OF 1]
    by (simp add: sample_running_service_def sample_started_job_def status_rule)
  moreover have "s1 = sample_running_service"
    using 1
    by (simp add: CloseLongRunningService_def sample_running_service_def sample_started_job_def
        GetTimedServiceJobStatus_def SetServiceJobStatus_def Let_def)
  moreover have "f2 \<and> e2 = [FreeLongRunningServiceData \<lparr>lsd_default_number_of_jobs = 3\<rparr>]"
    using C9_close_refused_while_started [OF 2]
    by (simp add: sample_running_service_def sample_started_job_def status_rule)
  ultimately show ?thesis using 1 2 by simp
qed

end
